theory Spec2Isabelle
  imports Main "HOL-Library.Word"
begin

unbundle bit_operations_syntax

section \<open>Build configuration and header constants\<close>

text \<open>
  The driver \<^verbatim>\<open>arch/arm/src/stm32/stm32_i2c_alt.c\<close> is compiled against
  chip and board headers that are not part of the verified sources. Every
  constant that comes from such a header (register bit masks, message flag
  masks, the peripheral clock) and every \<^verbatim>\<open>CONFIG_\<close> switch is a field
  of the configuration below; all results hold for every configuration
  unless a theorem says otherwise.
\<close>

record sr_bits =
  I2C_SR1_SB :: "32 word"
  I2C_SR1_ADDR :: "32 word"
  I2C_SR1_BTF :: "32 word"
  I2C_SR1_RXNE :: "32 word"
  I2C_SR1_TXE :: "32 word"
  I2C_SR1_BERR :: "32 word"
  I2C_SR1_ARLO :: "32 word"
  I2C_SR1_AF :: "32 word"
  I2C_SR1_OVR :: "32 word"
  I2C_SR1_PECERR :: "32 word"
  I2C_SR1_TIMEOUT :: "32 word"
  I2C_SR1_SMBALERT :: "32 word"
  I2C_SR2_BUSY :: "32 word"

record cr_bits = sr_bits +
  I2C_CR1_PE :: "16 word"
  I2C_CR1_START :: "16 word"
  I2C_CR1_STOP :: "16 word"
  I2C_CR1_ACK :: "16 word"
  I2C_CR1_POS :: "16 word"
  I2C_CR1_PEC :: "16 word"
  I2C_CR2_ITBUFEN :: "16 word"
  I2C_CR2_ALLINTS :: "16 word"
  I2C_CCR_FS :: "16 word"
  I2C_CCR_DUTY :: "16 word"
  I2C_OAR1_ONE :: "16 word"

record config = cr_bits +
  I2C_M_READ :: "16 word"
  I2C_M_TEN :: "16 word"
  I2C_M_NORESTART :: "16 word"
  STM32_PCLK1_FREQUENCY :: "32 word"
  CONFIG_I2C_POLLED :: bool
  CONFIG_I2C_TRACE :: bool
  CONFIG_I2C_NTRACE :: int
  CONFIG_STM32_I2C_DUTY16_9 :: bool
  CONFIG_STM32_I2CTIMEOTICKS :: "32 word"

text \<open>
  The comment in \<^verbatim>\<open>stm32_i2c_process\<close> documents the error mask as the
  'OR' of the individual error bits that the classification tests.
\<close>

definition I2C_SR1_ERRORMASK :: "config \<Rightarrow> 32 word" where
  "I2C_SR1_ERRORMASK cfg =
     I2C_SR1_BERR cfg OR I2C_SR1_ARLO cfg OR I2C_SR1_AF cfg OR I2C_SR1_OVR cfg OR
     I2C_SR1_PECERR cfg OR I2C_SR1_TIMEOUT cfg OR I2C_SR1_SMBALERT cfg"

section \<open>Private types\<close>

datatype stm32_intstate_e = INTSTATE_IDLE | INTSTATE_WAITING | INTSTATE_DONE

definition I2CEVENT_NONE :: "16 word" where "I2CEVENT_NONE = 0"
definition I2CEVENT_STATE_ERROR :: "16 word" where "I2CEVENT_STATE_ERROR = 1000"
definition I2CEVENT_ISR_SHUTDOWN :: "16 word" where "I2CEVENT_ISR_SHUTDOWN = 1001"
definition I2CEVENT_ISR_EMPTY_CALL :: "16 word" where "I2CEVENT_ISR_EMPTY_CALL = 1002"
definition I2CEVENT_MSG_HANDLING :: "16 word" where "I2CEVENT_MSG_HANDLING = 1003"
definition I2CEVENT_POLL_DEV_NOT_RDY :: "16 word" where "I2CEVENT_POLL_DEV_NOT_RDY = 1004"
definition I2CEVENT_ISR_CALL :: "16 word" where "I2CEVENT_ISR_CALL = 1111"
definition I2CEVENT_SENDADDR :: "16 word" where "I2CEVENT_SENDADDR = 5"
definition I2CEVENT_ADDR_HDL_READ_1 :: "16 word" where "I2CEVENT_ADDR_HDL_READ_1 = 51"
definition I2CEVENT_ADDR_HDL_READ_2 :: "16 word" where "I2CEVENT_ADDR_HDL_READ_2 = 52"
definition I2CEVENT_EMPTY_MSG :: "16 word" where "I2CEVENT_EMPTY_MSG = 5000"
definition I2CEVENT_ADDRESS_ACKED :: "16 word" where "I2CEVENT_ADDRESS_ACKED = 6"
definition I2CEVENT_ADDRESS_ACKED_READ_1 :: "16 word" where "I2CEVENT_ADDRESS_ACKED_READ_1 = 63"
definition I2CEVENT_ADDRESS_ACKED_READ_2 :: "16 word" where "I2CEVENT_ADDRESS_ACKED_READ_2 = 61"
definition I2CEVENT_ADDRESS_NACKED :: "16 word" where "I2CEVENT_ADDRESS_NACKED = 6000"
definition I2CEVENT_READ :: "16 word" where "I2CEVENT_READ = 7"
definition I2CEVENT_READ_3 :: "16 word" where "I2CEVENT_READ_3 = 72"
definition I2CEVENT_READ_2 :: "16 word" where "I2CEVENT_READ_2 = 73"
definition I2CEVENT_READ_SR_EMPTY :: "16 word" where "I2CEVENT_READ_SR_EMPTY = 79"
definition I2CEVENT_READ_ERROR :: "16 word" where "I2CEVENT_READ_ERROR = 7000"
definition I2CEVENT_WRITE_TO_DR :: "16 word" where "I2CEVENT_WRITE_TO_DR = 8"
definition I2CEVENT_WRITE_STOP :: "16 word" where "I2CEVENT_WRITE_STOP = 82"
definition I2CEVENT_WRITE_RESTART :: "16 word" where "I2CEVENT_WRITE_RESTART = 83"
definition I2CEVENT_WRITE_NO_RESTART :: "16 word" where "I2CEVENT_WRITE_NO_RESTART = 84"
definition I2CEVENT_WRITE_ERROR :: "16 word" where "I2CEVENT_WRITE_ERROR = 8000"
definition I2CEVENT_WRITE_FLAG_ERROR :: "16 word" where "I2CEVENT_WRITE_FLAG_ERROR = 8001"

text \<open>\<^verbatim>\<open>struct stm32_trace_s\<close>; the field names carry the suffix \<open>_tr\<close>.\<close>

record stm32_trace_s =
  status_tr :: "32 word"
  count_tr :: "32 word"
  event_tr :: "32 word"
  parm_tr :: "32 word"
  time_tr :: "32 word"

text \<open>
  \<^verbatim>\<open>struct i2c_msg_s\<close> is declared in \<^verbatim>\<open>nuttx/i2c.h\<close>, which is not among
  the sources; the record has the four members the driver uses, with the
  types of the driver's own copies of them (\<^verbatim>\<open>uint16_t flags\<close>,
  \<^verbatim>\<open>uint8_t *ptr\<close>, \<^verbatim>\<open>int dcnt\<close>). A buffer pointer is an address.
\<close>

record i2c_msg_s =
  addr_m :: "16 word"
  flags_m :: "16 word"
  buffer_m :: nat
  length_m :: int

text \<open>
  \<^verbatim>\<open>struct stm32_i2c_priv_s\<close> without the configuration pointer, the
  reference count and the two semaphores. \<open>msgv\<close> points into the caller's
  message array: \<open>None\<close> is \<^verbatim>\<open>NULL\<close>, \<open>Some i\<close> is the address of element
  \<open>i\<close>. \<open>dcnt\<close> is a C \<^verbatim>\<open>int\<close>; the driver only decrements it where it is
  at least 0, so it never overflows and is modelled as an integer.
\<close>

record stm32_i2c_priv_s =
  intstate :: stm32_intstate_e
  msgc :: "8 word"
  msgv :: "nat option"
  ptr :: nat
  dcnt :: int
  flags :: "16 word"
  check_addr_ACK :: bool
  total_msg_len :: "8 word"
  tndx :: int
  start_time :: "32 word"
  trace :: "int \<Rightarrow> stm32_trace_s"
  status :: "32 word"

section \<open>The machine around the driver\<close>

datatype i2c_reg = CR1 | CR2 | OAR1 | DR | SR1 | SR2 | CCR | TRISE

text \<open>
  Every access to the controller is recorded, in program order. A
  \<open>ModifyReg r c b\<close> is one call of the read-modify-write primitive with
  clear mask \<open>c\<close> and set mask \<open>b\<close>.
\<close>

datatype hw_access =
  GetReg i2c_reg
  | PutReg i2c_reg "16 word"
  | ModifyReg i2c_reg "16 word" "16 word"

text \<open>
  The private structure together with what the driver touches outside
  it: the register bank, the stream \<open>rx\<close> of values that successive reads
  of the data register deliver (\<open>nrx\<close> counts the reads so far), the access
  log \<open>acc\<close>, the byte memory holding the callers' buffers, the caller's
  message array, and the system timer.
\<close>

record sys = stm32_i2c_priv_s +
  regs :: "i2c_reg \<Rightarrow> 16 word"
  rx :: "nat \<Rightarrow> 16 word"
  nrx :: nat
  acc :: "hw_access list"
  mem :: "nat \<Rightarrow> 8 word"
  msgs :: "i2c_msg_s list"
  systimer :: "32 word"

section \<open>Register access\<close>

text \<open>
  \<^verbatim>\<open>getreg16\<close>, \<^verbatim>\<open>putreg16\<close> and \<^verbatim>\<open>modifyreg16\<close> are primitives of the
  architecture layer. Modelled from the spec: the register access shim
  "reads/writes/modifies 16-bit controller registers by offset"; a modify
  clears the clear mask and then sets the set mask in the register.
\<close>

definition stm32_i2c_getreg :: "i2c_reg \<Rightarrow> sys \<Rightarrow> 16 word \<times> sys" where
  "stm32_i2c_getreg r s =
     (if r = DR
      then (rx s (nrx s), s\<lparr>nrx := nrx s + 1, acc := acc s @ [GetReg r]\<rparr>)
      else (regs s r, s\<lparr>acc := acc s @ [GetReg r]\<rparr>))"

definition stm32_i2c_putreg :: "i2c_reg \<Rightarrow> 16 word \<Rightarrow> sys \<Rightarrow> sys" where
  "stm32_i2c_putreg r v s = s\<lparr>regs := (regs s)(r := v), acc := acc s @ [PutReg r v]\<rparr>"

definition stm32_i2c_modifyreg :: "i2c_reg \<Rightarrow> 16 word \<Rightarrow> 16 word \<Rightarrow> sys \<Rightarrow> sys" where
  "stm32_i2c_modifyreg r clearbits setbits s =
     s\<lparr>regs := (regs s)(r := (regs s r AND NOT clearbits) OR setbits),
       acc := acc s @ [ModifyReg r clearbits setbits]\<rparr>"

definition stm32_i2c_sendstart :: "config \<Rightarrow> sys \<Rightarrow> sys" where
  "stm32_i2c_sendstart cfg s = stm32_i2c_modifyreg CR1 (I2C_CR1_ACK cfg) (I2C_CR1_START cfg) s"

definition stm32_i2c_clrstart :: "config \<Rightarrow> sys \<Rightarrow> sys" where
  "stm32_i2c_clrstart cfg s =
     stm32_i2c_modifyreg CR1 (I2C_CR1_START cfg OR I2C_CR1_STOP cfg OR I2C_CR1_PEC cfg) 0 s"

definition stm32_i2c_sendstop :: "config \<Rightarrow> sys \<Rightarrow> sys" where
  "stm32_i2c_sendstop cfg s = stm32_i2c_modifyreg CR1 (I2C_CR1_ACK cfg) (I2C_CR1_STOP cfg) s"

section \<open>Event tracer\<close>

definition stm32_i2c_traceclear :: "sys \<Rightarrow> sys" where
  "stm32_i2c_traceclear s =
     s\<lparr>trace := (trace s)(tndx s :=
          \<lparr>status_tr = 0, count_tr = 0, event_tr = ucast I2CEVENT_NONE, parm_tr = 0, time_tr = 0\<rparr>)\<rparr>"

definition stm32_i2c_tracereset :: "sys \<Rightarrow> sys" where
  "stm32_i2c_tracereset s = stm32_i2c_traceclear (s\<lparr>tndx := 0, start_time := systimer s\<rparr>)"

text \<open>
  In \<^verbatim>\<open>stm32_i2c_tracenew\<close> the pointer \<^verbatim>\<open>trace\<close> is taken before the index
  is bumped and again after it; \<^verbatim>\<open>stm32_i2c_traceclear\<close> always clears the
  entry at the current index.
\<close>

definition stm32_i2c_tracenew :: "config \<Rightarrow> 16 word \<Rightarrow> sys \<Rightarrow> sys" where
  "stm32_i2c_tracenew cfg st s =
     (let tr = trace s (tndx s) in
      if count_tr tr = 0 \<or> ucast st \<noteq> status_tr tr then
        (if count_tr tr \<noteq> 0 \<and> tndx s \<ge> CONFIG_I2C_NTRACE cfg - 1 then s
         else
           let s1 = (if count_tr tr \<noteq> 0 then s\<lparr>tndx := tndx s + 1\<rparr> else s);
               s2 = stm32_i2c_traceclear s1
           in s2\<lparr>trace := (trace s2)(tndx s2 :=
                 (trace s2 (tndx s2))\<lparr>status_tr := ucast st, count_tr := 1, time_tr := systimer s2\<rparr>)\<rparr>)
      else s\<lparr>trace := (trace s)(tndx s := tr\<lparr>count_tr := count_tr tr + 1\<rparr>)\<rparr>)"

definition stm32_i2c_traceevent :: "config \<Rightarrow> 16 word \<Rightarrow> 32 word \<Rightarrow> sys \<Rightarrow> sys" where
  "stm32_i2c_traceevent cfg event parm s =
     (if event \<noteq> I2CEVENT_NONE \<or> event \<noteq> I2CEVENT_POLL_DEV_NOT_RDY then
        let s1 = s\<lparr>trace := (trace s)(tndx s :=
                   (trace s (tndx s))\<lparr>event_tr := ucast event, parm_tr := parm\<rparr>)\<rparr>
        in if tndx s1 \<ge> CONFIG_I2C_NTRACE cfg - 1 then s1
           else stm32_i2c_traceclear (s1\<lparr>tndx := tndx s1 + 1\<rparr>)
      else s)"

text \<open>
  Without \<^verbatim>\<open>CONFIG_I2C_TRACE\<close> the three trace calls are macros that expand
  to nothing.
\<close>

definition tracereset :: "config \<Rightarrow> sys \<Rightarrow> sys" where
  "tracereset cfg s = (if CONFIG_I2C_TRACE cfg then stm32_i2c_tracereset s else s)"

definition tracenew :: "config \<Rightarrow> 16 word \<Rightarrow> sys \<Rightarrow> sys" where
  "tracenew cfg st s = (if CONFIG_I2C_TRACE cfg then stm32_i2c_tracenew cfg st s else s)"

definition traceevent :: "config \<Rightarrow> 16 word \<Rightarrow> 32 word \<Rightarrow> sys \<Rightarrow> sys" where
  "traceevent cfg event parm s =
     (if CONFIG_I2C_TRACE cfg then stm32_i2c_traceevent cfg event parm s else s)"

section \<open>The interrupt service routine\<close>

text \<open>
  The message \<open>msgv\<close> points to; \<open>None\<close> when the pointer is \<^verbatim>\<open>NULL\<close> or
  outside the caller's array, where the C dereference has no defined
  result. Every function below that dereferences \<open>msgv\<close> returns \<open>None\<close>
  in that case.
\<close>

definition msg_at :: "sys \<Rightarrow> i2c_msg_s option" where
  "msg_at s =
     (case msgv s of
        None \<Rightarrow> None
      | Some i \<Rightarrow> if i < length (msgs s) then Some (msgs s ! i) else None)"

text \<open>
  \<^verbatim>\<open>stm32_i2c_traceevent(priv, event, priv->msgv->addr)\<close>: the argument is
  only evaluated when tracing is compiled in.
\<close>

definition traceevent_addr :: "config \<Rightarrow> 16 word \<Rightarrow> sys \<Rightarrow> sys option" where
  "traceevent_addr cfg event s =
     (if CONFIG_I2C_TRACE cfg
      then (case msg_at s of
              None \<Rightarrow> None
            | Some m \<Rightarrow> Some (stm32_i2c_traceevent cfg event (ucast (addr_m m)) s))
      else Some s)"

text \<open>\<^verbatim>\<open>*priv->ptr++ = stm32_i2c_getreg(priv, STM32_I2C_DR_OFFSET)\<close>\<close>

definition read_dr_to_ptr :: "sys \<Rightarrow> sys" where
  "read_dr_to_ptr s =
     (let (v, s1) = stm32_i2c_getreg DR s
      in s1\<lparr>mem := (mem s1)(ptr s1 := ucast v), ptr := ptr s1 + 1\<rparr>)"

text \<open>Messages handling (1/2): lines 1267-1303.\<close>

definition isr_msg_handling_1 :: "config \<Rightarrow> sys \<Rightarrow> sys option" where
  "isr_msg_handling_1 cfg s =
     (if dcnt s = -1 \<and> msgc s > 0 then
        (case msg_at s of
           None \<Rightarrow> None
         | Some m \<Rightarrow>
             let s1 = s\<lparr>ptr := buffer_m m, dcnt := length_m m,
                        total_msg_len := word_of_int (length_m m), flags := flags_m m\<rparr>;
                 s2 = s1\<lparr>msgc := msgc s1 - 1\<rparr>;
                 s3 = (if msgc s2 = 0 then s2 else s2\<lparr>msgv := map_option Suc (msgv s2)\<rparr>)
             in Some (traceevent cfg I2CEVENT_MSG_HANDLING (ucast (msgc s3)) s3))
      else Some s)"

text \<open>
  The first statements of the routine: read SR1 only, store it as the
  private status, trace, and run messages handling (1/2). The result is
  the local variable \<^verbatim>\<open>status\<close> and the state at the phase dispatch.
\<close>

definition isr_prologue :: "config \<Rightarrow> sys \<Rightarrow> (32 word \<times> sys) option" where
  "isr_prologue cfg s0 =
     (let (sr1, s1) = stm32_i2c_getreg SR1 s0;
          st = (ucast sr1 :: 32 word);
          s2 = s1\<lparr>status := st\<rparr>;
          s3 = tracenew cfg (ucast st) s2;
          s4 = traceevent cfg I2CEVENT_ISR_CALL 0 s3
      in map_option (Pair st) (isr_msg_handling_1 cfg s4))"

text \<open>Address handling, start bit set: lines 1327-1413.\<close>

definition isr_address_handling :: "config \<Rightarrow> sys \<Rightarrow> sys option" where
  "isr_address_handling cfg s =
     (if dcnt s > 0 then
        let s1 =
          (if total_msg_len s = 1 \<and> flags s AND I2C_M_READ cfg \<noteq> 0 then
             traceevent cfg I2CEVENT_ADDR_HDL_READ_1 0
               (stm32_i2c_modifyreg CR1 (I2C_CR1_ACK cfg) 0
                 (stm32_i2c_modifyreg CR1 (I2C_CR1_POS cfg) 0 s))
           else if total_msg_len s = 2 \<and> flags s AND I2C_M_READ cfg \<noteq> 0 then
             traceevent cfg I2CEVENT_ADDR_HDL_READ_2 0
               (stm32_i2c_modifyreg CR1 0 (I2C_CR1_ACK cfg)
                 (stm32_i2c_modifyreg CR1 0 (I2C_CR1_POS cfg) s))
           else
             stm32_i2c_modifyreg CR1 0 (I2C_CR1_ACK cfg)
               (stm32_i2c_modifyreg CR1 (I2C_CR1_POS cfg) 0 s))
        in
          if flags s1 AND I2C_M_TEN cfg \<noteq> 0 then
            traceevent_addr cfg I2CEVENT_SENDADDR
              ((stm32_i2c_putreg DR 0 s1)\<lparr>check_addr_ACK := True\<rparr>)
          else
            (case msg_at s1 of
               None \<Rightarrow> None
             | Some m \<Rightarrow>
                 traceevent_addr cfg I2CEVENT_SENDADDR
                   ((stm32_i2c_putreg DR
                       (push_bit 1 (addr_m m) OR (flags s1 AND I2C_M_READ cfg)) s1)
                    \<lparr>check_addr_ACK := True\<rparr>))
      else
        let s1 = traceevent cfg I2CEVENT_EMPTY_MSG 0 s;
            s2 = s1\<lparr>dcnt := -1\<rparr>
        in Some (stm32_i2c_modifyreg CR2 0 (I2C_CR2_ITBUFEN cfg) s2))"

text \<open>Address not acknowledged (interrupt build only): lines 1443-1466.\<close>

definition isr_address_nacked :: "config \<Rightarrow> sys \<Rightarrow> sys option" where
  "isr_address_nacked cfg s =
     (let s1 = s\<lparr>dcnt := -1, msgc := 0\<rparr>;
          s2 = s1\<lparr>check_addr_ACK := False\<rparr>;
          s3 = stm32_i2c_sendstop cfg s2
      in traceevent_addr cfg I2CEVENT_ADDRESS_NACKED s3)"

text \<open>
  Address acknowledged in read mode: lines 1471-1530. The value read from
  SR2 is or-ed into the local \<^verbatim>\<open>status\<close>, which no later test reads; only
  the read itself remains.
\<close>

definition isr_address_acked_read :: "config \<Rightarrow> sys \<Rightarrow> sys" where
  "isr_address_acked_read cfg s =
     (let s1 = s\<lparr>check_addr_ACK := False\<rparr>;
          s2 = snd (stm32_i2c_getreg SR2 s1)
      in if dcnt s2 = 1 \<and> total_msg_len s2 = 1 then
           let s3 = stm32_i2c_modifyreg CR2 0 (I2C_CR2_ITBUFEN cfg) s2;
               s4 = stm32_i2c_sendstop cfg s3;
               s5 = s4\<lparr>dcnt := dcnt s4 - 1\<rparr>
           in traceevent cfg I2CEVENT_ADDRESS_ACKED_READ_1 0 s5
         else if dcnt s2 = 2 \<and> total_msg_len s2 = 2 then
           traceevent cfg I2CEVENT_ADDRESS_ACKED_READ_2 0
             (stm32_i2c_modifyreg CR1 (I2C_CR1_ACK cfg) 0 s2)
         else traceevent cfg I2CEVENT_ADDRESS_ACKED 0 s2)"

text \<open>
  Write mode: lines 1539-1636. \<open>msgc\<close> is unsigned, so after the test
  \<^verbatim>\<open>priv->msgc == 0\<close> has failed the two tests \<^verbatim>\<open>priv->msgc > 0\<close> are true
  and the flags of the next message are read.
\<close>

definition isr_write_mode :: "config \<Rightarrow> sys \<Rightarrow> sys option" where
  "isr_write_mode cfg s =
     (let s1 = snd (stm32_i2c_getreg SR2 s);
          s2 = s1\<lparr>check_addr_ACK := False\<rparr>
      in if dcnt s2 \<ge> 1 then
           let s3 = (stm32_i2c_putreg DR (ucast (mem s2 (ptr s2))) s2)\<lparr>ptr := ptr s2 + 1\<rparr>;
               s4 = traceevent cfg I2CEVENT_WRITE_TO_DR (word_of_int (dcnt s3)) s3
           in Some (s4\<lparr>dcnt := dcnt s4 - 1\<rparr>)
         else if dcnt s2 = 0 then
           (if msgc s2 = 0 then
              let s3 = stm32_i2c_sendstop cfg s2;
                  s4 = s3\<lparr>dcnt := dcnt s3 - 1\<rparr>
              in Some (traceevent cfg I2CEVENT_WRITE_STOP (word_of_int (dcnt s4)) s4)
            else
              (case msg_at s2 of
                 None \<Rightarrow> None
               | Some m \<Rightarrow>
                   if msgc s2 > 0 \<and> (flags_m m = 0 \<or> flags_m m AND I2C_M_READ cfg \<noteq> 0) then
                     let s3 = stm32_i2c_sendstart cfg s2;
                         s4 = s3\<lparr>dcnt := dcnt s3 - 1\<rparr>
                     in Some (traceevent cfg I2CEVENT_WRITE_RESTART (word_of_int (dcnt s4)) s4)
                   else if msgc s2 > 0 \<and> flags_m m AND I2C_M_NORESTART cfg \<noteq> 0 then
                     let s3 = s2\<lparr>dcnt := -1\<rparr>
                     in Some (traceevent cfg I2CEVENT_WRITE_NO_RESTART (word_of_int (dcnt s3)) s3)
                   else
                     Some (traceevent cfg I2CEVENT_WRITE_FLAG_ERROR (ucast (flags_m m)) s2)))
         else Some (traceevent cfg I2CEVENT_WRITE_ERROR 0 s2))"

text \<open>Read mode: lines 1665-1813; \<open>st\<close> is the local \<^verbatim>\<open>status\<close> (SR1).\<close>

definition isr_read_mode :: "config \<Rightarrow> 32 word \<Rightarrow> sys \<Rightarrow> sys" where
  "isr_read_mode cfg st s =
     (let s' =
        (if dcnt s = 0 \<and> total_msg_len s = 1 then
           let s1 = read_dr_to_ptr s;
               s2 = s1\<lparr>dcnt := dcnt s1 - 1\<rparr>
           in traceevent cfg I2CEVENT_READ 0 s2
         else if dcnt s = 2 \<and> total_msg_len s = 2 \<and> st AND I2C_SR1_BTF cfg = 0 then
           traceevent cfg I2CEVENT_READ_SR_EMPTY 0 s
         else if dcnt s = 2 \<and> total_msg_len s = 2 \<and> st AND I2C_SR1_BTF cfg \<noteq> 0 then
           let s1 = stm32_i2c_sendstop cfg s;
               s2 = read_dr_to_ptr s1;
               s3 = s2\<lparr>dcnt := dcnt s2 - 1\<rparr>;
               s4 = read_dr_to_ptr s3;
               s5 = s4\<lparr>dcnt := dcnt s4 - 1\<rparr>;
               s6 = s5\<lparr>dcnt := dcnt s5 - 1\<rparr>
           in traceevent cfg I2CEVENT_READ_2 0 s6
         else if total_msg_len s \<ge> 3 \<and> st AND I2C_SR1_BTF cfg = 0 then
           traceevent cfg I2CEVENT_READ_SR_EMPTY 0 s
         else if dcnt s \<ge> 4 \<and> total_msg_len s \<ge> 3 \<and> st AND I2C_SR1_BTF cfg \<noteq> 0 then
           let s1 = read_dr_to_ptr s;
               s2 = s1\<lparr>dcnt := dcnt s1 - 1\<rparr>
           in traceevent cfg I2CEVENT_READ 0 s2
         else if dcnt s = 3 \<and> st AND I2C_SR1_BTF cfg \<noteq> 0 \<and> total_msg_len s \<ge> 3 then
           let s1 = traceevent cfg I2CEVENT_READ_3 (word_of_int (dcnt s)) s;
               s2 = stm32_i2c_modifyreg CR1 (I2C_CR1_ACK cfg) 0 s1;
               s3 = read_dr_to_ptr s2
           in s3\<lparr>dcnt := dcnt s3 - 1\<rparr>
         else if dcnt s = 2 \<and> st AND I2C_SR1_BTF cfg \<noteq> 0 \<and> total_msg_len s \<ge> 3 then
           let s1 = traceevent cfg I2CEVENT_READ_3 (word_of_int (dcnt s)) s;
               s2 = stm32_i2c_sendstop cfg s1;
               s3 = read_dr_to_ptr s2;
               s4 = read_dr_to_ptr s3
           in s4\<lparr>dcnt := -1\<rparr>
         else
           traceevent cfg I2CEVENT_READ_ERROR 0 (s\<lparr>dcnt := -1, msgc := 0\<rparr>))
      in snd (stm32_i2c_getreg SR2 s'))"

text \<open>Empty call handler: lines 1821-1828.\<close>

definition isr_empty_call :: "config \<Rightarrow> sys \<Rightarrow> sys" where
  "isr_empty_call cfg s =
     traceevent cfg I2CEVENT_ISR_EMPTY_CALL 0 (snd (stm32_i2c_getreg SR2 s))"

text \<open>Error handler: lines 1841-1859.\<close>

definition isr_error_handler :: "config \<Rightarrow> sys \<Rightarrow> sys" where
  "isr_error_handler cfg s =
     (if CONFIG_I2C_POLLED cfg then traceevent cfg I2CEVENT_POLL_DEV_NOT_RDY 0 s
      else
        let s1 = snd (stm32_i2c_getreg SR2 s);
            s2 = s1\<lparr>dcnt := -1, msgc := 0\<rparr>
        in traceevent cfg I2CEVENT_STATE_ERROR 0 s2)"

text \<open>
  Messages handling (2/2): lines 1868-1903. Posting the semaphore is the
  wake-up of the waiting thread and leaves no trace in this state.
\<close>

definition isr_msg_handling_2 :: "config \<Rightarrow> sys \<Rightarrow> sys" where
  "isr_msg_handling_2 cfg s =
     (if dcnt s = -1 \<and> msgc s = 0 then
        let s1 = traceevent cfg I2CEVENT_ISR_SHUTDOWN 0 s;
            s2 = s1\<lparr>msgv := None\<rparr>
        in if CONFIG_I2C_POLLED cfg then s2\<lparr>intstate := INTSTATE_DONE\<rparr>
           else
             let (regval, s3) = stm32_i2c_getreg CR2 s2;
                 s4 = stm32_i2c_putreg CR2 (regval AND NOT (I2C_CR2_ALLINTS cfg)) s3
             in if intstate s4 = INTSTATE_WAITING then s4\<lparr>intstate := INTSTATE_DONE\<rparr> else s4
      else s)"

text \<open>The if-else chain of the phase dispatch, in the order of the source.\<close>

definition isr_dispatch :: "config \<Rightarrow> 32 word \<Rightarrow> sys \<Rightarrow> sys option" where
  "isr_dispatch cfg st s =
     (if st AND I2C_SR1_SB cfg \<noteq> 0 then isr_address_handling cfg s
      else if \<not> CONFIG_I2C_POLLED cfg \<and> st AND I2C_SR1_ADDR cfg = 0 \<and> check_addr_ACK s
        then isr_address_nacked cfg s
      else if flags s AND I2C_M_READ cfg \<noteq> 0 \<and> st AND I2C_SR1_ADDR cfg \<noteq> 0 \<and> check_addr_ACK s
        then Some (isr_address_acked_read cfg s)
      else if flags s AND I2C_M_READ cfg = 0 \<and>
              st AND (I2C_SR1_ADDR cfg OR I2C_SR1_TXE cfg) \<noteq> 0
        then isr_write_mode cfg s
      else if flags s AND I2C_M_READ cfg \<noteq> 0 \<and> st AND I2C_SR1_RXNE cfg \<noteq> 0
        then Some (isr_read_mode cfg st s)
      else if dcnt s = -1 \<and> msgc s = 0 then Some (isr_empty_call cfg s)
      else Some (isr_error_handler cfg s))"

definition stm32_i2c_isr :: "config \<Rightarrow> sys \<Rightarrow> sys option" where
  "stm32_i2c_isr cfg s =
     (case isr_prologue cfg s of
        None \<Rightarrow> None
      | Some (st, s1) \<Rightarrow> map_option (isr_msg_handling_2 cfg) (isr_dispatch cfg st s1))"

section \<open>Clock configurator\<close>

text \<open>
  \<^verbatim>\<open>stm32_i2c_setclock\<close>. The quotients are computed in 32-bit unsigned
  arithmetic and cast to \<^verbatim>\<open>uint16_t\<close>; a division by zero has no result.
  The rise time of the fast mode is computed in \<^verbatim>\<open>int\<close> after the
  integer promotion of \<^verbatim>\<open>freqmhz\<close>.
\<close>

definition stm32_i2c_setclock :: "config \<Rightarrow> 32 word \<Rightarrow> sys \<Rightarrow> sys option" where
  "stm32_i2c_setclock cfg frequency s =
     (let (cr1, s1) = stm32_i2c_getreg CR1 s;
          s2 = stm32_i2c_putreg CR1 (cr1 AND NOT (I2C_CR1_PE cfg)) s1;
          freqmhz = (ucast (STM32_PCLK1_FREQUENCY cfg div 1000000) :: 16 word);
          divisor = (if frequency \<le> 100000 then push_bit 1 frequency
                     else if CONFIG_STM32_I2C_DUTY16_9 cfg then frequency * 25
                     else frequency * 3)
      in if divisor = 0 then None
         else
           let speed = (ucast (STM32_PCLK1_FREQUENCY cfg div divisor) :: 16 word);
               ccr = (if frequency \<le> 100000 then 0 OR (if speed < 4 then 4 else speed)
                      else (if CONFIG_STM32_I2C_DUTY16_9 cfg
                            then 0 OR (I2C_CCR_DUTY cfg OR I2C_CCR_FS cfg)
                            else 0 OR I2C_CCR_FS cfg)
                           OR (if speed < 1 then 1 else speed));
               trise = (if frequency \<le> 100000 then freqmhz + 1
                        else (word_of_int ((uint freqmhz * 300) div 1000 + 1) :: 16 word));
               s3 = stm32_i2c_putreg CCR ccr s2;
               s4 = stm32_i2c_putreg TRISE trise s3;
               s5 = stm32_i2c_putreg OAR1 (I2C_OAR1_ONE cfg) s4
           in Some (stm32_i2c_putreg CR1 cr1 s5))"

section \<open>Completion gate and transfer orchestrator\<close>

datatype errno = EIO | EAGAIN | ENXIO | EPROTO | ETIME | EINTR | EBUSY | ETIMEDOUT

text \<open>A return value: \<open>OK\<close>, or the negated error number.\<close>

datatype retval = OK | Neg errno

text \<open>
  The gate of the polled build (\<^verbatim>\<open>CONFIG_I2C_POLLED\<close>) calls the routine in
  a loop. What the hardware and the clock do between two calls is an
  input: one observation \<open>(sr1, sr2, now)\<close> per iteration gives the two
  status registers as they stand when the routine is called and the value
  of the system timer read after it. The loop returns \<open>None\<close> when a call
  of the routine has no result or when the observations end while the
  loop is still running.
\<close>

fun poll_isr ::
  "config \<Rightarrow> 32 word \<Rightarrow> 32 word \<Rightarrow> (16 word \<times> 16 word \<times> 32 word) list \<Rightarrow> sys \<Rightarrow> sys option" where
  "poll_isr cfg timeout start [] s = None"
| "poll_isr cfg timeout start ((sr1, sr2, now) # obs) s =
     (case stm32_i2c_isr cfg (s\<lparr>regs := (regs s)(SR1 := sr1, SR2 := sr2)\<rparr>) of
        None \<Rightarrow> None
      | Some s1 \<Rightarrow>
          let s2 = s1\<lparr>systimer := now\<rparr>;
              elapsed = systimer s2 - start
          in if intstate s2 \<noteq> INTSTATE_DONE \<and> elapsed < timeout
             then poll_isr cfg timeout start obs s2
             else Some s2)"

text \<open>
  \<^verbatim>\<open>stm32_i2c_sem_waitdone\<close>, polled build, with the fixed timeout
  \<^verbatim>\<open>CONFIG_STM32_I2CTIMEOTICKS\<close>.
\<close>

definition stm32_i2c_sem_waitdone ::
  "config \<Rightarrow> (16 word \<times> 16 word \<times> 32 word) list \<Rightarrow> sys \<Rightarrow> (retval \<times> sys) option" where
  "stm32_i2c_sem_waitdone cfg obs s =
     (let timeout = CONFIG_STM32_I2CTIMEOTICKS cfg;
          s1 = s\<lparr>intstate := INTSTATE_WAITING\<rparr>;
          start = systimer s1
      in case poll_isr cfg timeout start obs s1 of
           None \<Rightarrow> None
         | Some s2 \<Rightarrow>
             Some (if intstate s2 = INTSTATE_DONE then OK else Neg ETIMEDOUT,
                   s2\<lparr>intstate := INTSTATE_IDLE\<rparr>))"

text \<open>\<^verbatim>\<open>stm32_i2c_getstatus\<close>: SR1 and SR2 combined.\<close>

definition stm32_i2c_getstatus :: "sys \<Rightarrow> 32 word \<times> sys" where
  "stm32_i2c_getstatus s =
     (let (sr1, s1) = stm32_i2c_getreg SR1 s;
          (sr2, s2) = stm32_i2c_getreg SR2 s1
      in (ucast sr1 OR push_bit 16 (ucast sr2), s2))"

text \<open>
  \<^verbatim>\<open>stm32_i2c_process\<close> up to the call of the gate (lines 2126-2161):
  clear the error flags and the START/STOP/PEC bits, install the message
  list, reset the trace, program the clock, set the byte counter to the
  sentinel and request START. \<^verbatim>\<open>ASSERT(count)\<close> fails for a zero count.
\<close>

definition stm32_i2c_process_begin ::
  "config \<Rightarrow> 32 word \<Rightarrow> i2c_msg_s list \<Rightarrow> int \<Rightarrow> sys \<Rightarrow> sys option" where
  "stm32_i2c_process_begin cfg frequency ms count s =
     (if count = 0 then None
      else
        let s1 = stm32_i2c_putreg SR1 0 s;
            s2 = stm32_i2c_clrstart cfg s1;
            s3 = s2\<lparr>msgv := Some 0, msgs := ms\<rparr>;
            s4 = s3\<lparr>msgc := word_of_int count\<rparr>;
            s5 = tracereset cfg s4
        in case stm32_i2c_setclock cfg frequency s5 of
             None \<Rightarrow> None
           | Some s6 \<Rightarrow>
               let s7 = s6\<lparr>dcnt := -1\<rparr>;
                   s8 = s7\<lparr>status := 0\<rparr>
               in Some (stm32_i2c_sendstart cfg s8))"

text \<open>
  The classification of the status (lines 2218-2282), from the local
  \<^verbatim>\<open>status\<close> and the value \<^verbatim>\<open>errval\<close> has at that point (\<open>None\<close> is 0).
\<close>

definition process_errval :: "config \<Rightarrow> 32 word \<Rightarrow> errno option \<Rightarrow> errno option" where
  "process_errval cfg st errval =
     (if st AND I2C_SR1_ERRORMASK cfg \<noteq> 0 then
        (if st AND I2C_SR1_BERR cfg \<noteq> 0 then Some EIO
         else if st AND I2C_SR1_ARLO cfg \<noteq> 0 then Some EAGAIN
         else if st AND I2C_SR1_AF cfg \<noteq> 0 then Some ENXIO
         else if st AND I2C_SR1_OVR cfg \<noteq> 0 then Some EIO
         else if st AND I2C_SR1_PECERR cfg \<noteq> 0 then Some EPROTO
         else if st AND I2C_SR1_TIMEOUT cfg \<noteq> 0 then Some ETIME
         else Some EINTR)
      else if st AND push_bit 16 (I2C_SR2_BUSY cfg) \<noteq> 0 then Some EBUSY
      else errval)"

text \<open>
  \<^verbatim>\<open>stm32_i2c_process\<close> from the return of the gate to its own return
  (lines 2167-2302), for the value \<open>ret\<close> the gate returned. After a
  timeout the status registers are read and the local \<^verbatim>\<open>status\<close> is then
  overwritten with the low half of the private status.
\<close>

definition stm32_i2c_process_end :: "config \<Rightarrow> retval \<Rightarrow> sys \<Rightarrow> retval \<times> sys" where
  "stm32_i2c_process_end cfg ret s =
     (let (st, errval, s') =
        (if ret \<noteq> OK then
           let (st0, s1) = stm32_i2c_getstatus s;
               s2 = stm32_i2c_clrstart cfg s1;
               s3 = (if CONFIG_I2C_POLLED cfg then stm32_i2c_sendstop cfg s2 else s2)
           in (status s3 AND 0xffff, Some ETIMEDOUT, s3)
         else (status s AND 0xffff, None, s))
      in (case process_errval cfg st errval of None \<Rightarrow> OK | Some e \<Rightarrow> Neg e, s'))"

text \<open>
  \<^verbatim>\<open>stm32_i2c_sem_waitstop\<close> with the fixed timeout: one observation
  \<open>(cr1, sr1, now)\<close> per iteration of its loop.
\<close>

fun poll_stop ::
  "config \<Rightarrow> 32 word \<Rightarrow> 32 word \<Rightarrow> (16 word \<times> 16 word \<times> 32 word) list \<Rightarrow> sys \<Rightarrow> sys option" where
  "poll_stop cfg timeout start [] s = None"
| "poll_stop cfg timeout start ((cr1, sr1, now) # obs) s =
     (let (v1, s1) = stm32_i2c_getreg CR1 (s\<lparr>regs := (regs s)(CR1 := cr1, SR1 := sr1)\<rparr>)
      in if v1 AND I2C_CR1_STOP cfg = 0 then Some s1
         else
           let (v2, s2) = stm32_i2c_getreg SR1 s1
           in if ucast v2 AND I2C_SR1_TIMEOUT cfg \<noteq> 0 then Some s2
              else
                let s3 = s2\<lparr>systimer := now\<rparr>;
                    elapsed = systimer s3 - start
                in if elapsed < timeout then poll_stop cfg timeout start obs s3 else Some s3)"

definition stm32_i2c_sem_waitstop ::
  "config \<Rightarrow> (16 word \<times> 16 word \<times> 32 word) list \<Rightarrow> sys \<Rightarrow> sys option" where
  "stm32_i2c_sem_waitstop cfg obs s =
     poll_stop cfg (CONFIG_STM32_I2CTIMEOTICKS cfg) (systimer s) obs s"

text \<open>
  \<^verbatim>\<open>stm32_i2c_process\<close> of the polled build without the FSMC work-around:
  wait for a STOP in progress, prepare, wait on the gate, classify.
\<close>

definition stm32_i2c_process ::
  "config \<Rightarrow> 32 word \<Rightarrow> i2c_msg_s list \<Rightarrow> int \<Rightarrow>
   (16 word \<times> 16 word \<times> 32 word) list \<Rightarrow> (16 word \<times> 16 word \<times> 32 word) list \<Rightarrow>
   sys \<Rightarrow> (retval \<times> sys) option" where
  "stm32_i2c_process cfg frequency ms count obs_stop obs s =
     (if count = 0 then None
      else
        case stm32_i2c_sem_waitstop cfg obs_stop s of
          None \<Rightarrow> None
        | Some s1 \<Rightarrow>
            (case stm32_i2c_process_begin cfg frequency ms count s1 of
               None \<Rightarrow> None
             | Some s2 \<Rightarrow>
                 (case stm32_i2c_sem_waitdone cfg obs s2 of
                    None \<Rightarrow> None
                  | Some (ret, s3) \<Rightarrow> Some (stm32_i2c_process_end cfg ret s3))))"


section \<open>A concrete configuration and machine\<close>

text \<open>
  The bit assignments of the STM32 F1/F2/F4 controller, the message flags
  of the I2C framework, a peripheral clock of 42 MHz and the default
  trace capacity: the configuration at which the general results are
  instantiated.
\<close>

definition stm32_cfg :: config where
  "stm32_cfg =
     \<lparr>I2C_SR1_SB = 0x0001, I2C_SR1_ADDR = 0x0002, I2C_SR1_BTF = 0x0004,
      I2C_SR1_RXNE = 0x0040, I2C_SR1_TXE = 0x0080, I2C_SR1_BERR = 0x0100,
      I2C_SR1_ARLO = 0x0200, I2C_SR1_AF = 0x0400, I2C_SR1_OVR = 0x0800,
      I2C_SR1_PECERR = 0x1000, I2C_SR1_TIMEOUT = 0x4000, I2C_SR1_SMBALERT = 0x8000,
      I2C_SR2_BUSY = 0x0002,
      I2C_CR1_PE = 0x0001, I2C_CR1_START = 0x0100, I2C_CR1_STOP = 0x0200,
      I2C_CR1_ACK = 0x0400, I2C_CR1_POS = 0x0800, I2C_CR1_PEC = 0x1000,
      I2C_CR2_ITBUFEN = 0x0400, I2C_CR2_ALLINTS = 0x0700,
      I2C_CCR_FS = 0x8000, I2C_CCR_DUTY = 0x4000, I2C_OAR1_ONE = 0x4000,
      I2C_M_READ = 0x0001, I2C_M_TEN = 0x0002, I2C_M_NORESTART = 0x0080,
      STM32_PCLK1_FREQUENCY = 42000000,
      CONFIG_I2C_POLLED = False, CONFIG_I2C_TRACE = True, CONFIG_I2C_NTRACE = 32,
      CONFIG_STM32_I2C_DUTY16_9 = False, CONFIG_STM32_I2CTIMEOTICKS = 50\<rparr>"

definition stm32_cfg_polled :: config where
  "stm32_cfg_polled = stm32_cfg\<lparr>CONFIG_I2C_POLLED := True\<rparr>"

text \<open>
  A machine at rest: the private structure as statically initialised
  (lines 413-424: every field zero or NULL), all registers zero, an empty
  access log; the \<open>n\<close>-th read of the data register delivers \<open>n + 1\<close>.
\<close>

definition sys0 :: sys where
  "sys0 =
     \<lparr>intstate = INTSTATE_IDLE, msgc = 0, msgv = None, ptr = 0, dcnt = 0, flags = 0,
      check_addr_ACK = False, total_msg_len = 0, tndx = 0, start_time = 0,
      trace = (\<lambda>i. \<lparr>status_tr = 0, count_tr = 0, event_tr = 0, parm_tr = 0, time_tr = 0\<rparr>),
      status = 0,
      regs = (\<lambda>r. 0), rx = (\<lambda>n. of_nat (n + 1)), nrx = 0, acc = [], mem = (\<lambda>a. 0),
      msgs = [], systimer = 0\<rparr>"

text \<open>
  A read message of total length \<open>n\<close> with \<open>d\<close> bytes remaining, the
  address phase over and the last message of its request, at a moment
  when the status register SR1 holds \<open>sr\<close>.
\<close>

definition sys_reading :: "int \<Rightarrow> 8 word \<Rightarrow> 16 word \<Rightarrow> sys" where
  "sys_reading d n sr =
     sys0\<lparr>msgv := Some 0, dcnt := d, flags := 0x0001, total_msg_len := n,
          regs := (\<lambda>r. 0)(SR1 := sr),
          msgs := [\<lparr>addr_m = 0x10, flags_m = 0x0001, buffer_m = 0, length_m = uint n\<rparr>]\<rparr>"

text \<open>
  A two-byte write message to address 0x10 whose bytes have both been
  handed to the data register, followed by the messages \<open>ms\<close>; \<open>msgv\<close>
  points to the first of them, or still to the write message when there
  are none.
\<close>

definition sys_written :: "i2c_msg_s list \<Rightarrow> 16 word \<Rightarrow> sys" where
  "sys_written ms sr =
     sys0\<lparr>msgc := of_nat (length ms), msgv := Some (min 1 (length ms)), ptr := 2, dcnt := 0,
          flags := 0, total_msg_len := 2,
          regs := (\<lambda>r. 0)(SR1 := sr),
          msgs := \<lparr>addr_m = 0x10, flags_m = 0, buffer_m = 0, length_m = 2\<rparr> # ms\<rparr>"

text \<open>A message of three bytes to be read from address 0x10 into address 8.\<close>

definition read3_msg :: "16 word \<Rightarrow> i2c_msg_s" where
  "read3_msg fl = \<lparr>addr_m = 0x10, flags_m = fl, buffer_m = 8, length_m = 3\<rparr>"

text \<open>A message of one byte to be written to address 0x10 from address 0.\<close>

definition write1_msg :: i2c_msg_s where
  "write1_msg = \<lparr>addr_m = 0x10, flags_m = 0, buffer_m = 0, length_m = 1\<rparr>"




text \<open>A message of no bytes to be written to address 0x10.\<close>

definition empty_msg :: i2c_msg_s where
  "empty_msg = \<lparr>addr_m = 0x10, flags_m = 0, buffer_m = 0, length_m = 0\<rparr>"

text \<open>
  Two transfers of the polled build, from the machine at rest. The first,
  of one byte to write, sees the start bit once, sends the address and
  times out. The second, of an empty message and a message with the
  ten-bit-address flag only, is taken as \<^verbatim>\<open>stm32_i2c_process\<close> takes it
  up to the call of the gate (the STOP bit found clear): the state the
  first invocation of the routine finds.
\<close>

definition sys_leftover :: "sys option" where
  "sys_leftover =
     (case stm32_i2c_process stm32_cfg_polled 100000 [write1_msg] 1 [(0, 0, 0)]
             [(0x0001, 0, 100)] sys0 of
        None \<Rightarrow> None
      | Some (r, a) \<Rightarrow>
          (case stm32_i2c_sem_waitstop stm32_cfg_polled [(0, 0, 0)] a of
             None \<Rightarrow> None
           | Some a' \<Rightarrow>
               stm32_i2c_process_begin stm32_cfg_polled 100000 [empty_msg, read3_msg 0x0002] 2
                 a'))"

section \<open>Results\<close>

subsection \<open>What the primitives and the phases do\<close>

lemma traceevent_frame [simp]:
  "intstate (traceevent cfg e p s) = intstate s"
  "msgc (traceevent cfg e p s) = msgc s"
  "msgv (traceevent cfg e p s) = msgv s"
  "ptr (traceevent cfg e p s) = ptr s"
  "dcnt (traceevent cfg e p s) = dcnt s"
  "flags (traceevent cfg e p s) = flags s"
  "check_addr_ACK (traceevent cfg e p s) = check_addr_ACK s"
  "total_msg_len (traceevent cfg e p s) = total_msg_len s"
  "status (traceevent cfg e p s) = status s"
  "regs (traceevent cfg e p s) = regs s"
  "rx (traceevent cfg e p s) = rx s"
  "nrx (traceevent cfg e p s) = nrx s"
  "acc (traceevent cfg e p s) = acc s"
  "mem (traceevent cfg e p s) = mem s"
  "msgs (traceevent cfg e p s) = msgs s"
  "systimer (traceevent cfg e p s) = systimer s"
  by (simp_all add: traceevent_def stm32_i2c_traceevent_def stm32_i2c_traceclear_def Let_def)

lemma tracenew_frame [simp]:
  "intstate (tracenew cfg st s) = intstate s"
  "msgc (tracenew cfg st s) = msgc s"
  "msgv (tracenew cfg st s) = msgv s"
  "ptr (tracenew cfg st s) = ptr s"
  "dcnt (tracenew cfg st s) = dcnt s"
  "flags (tracenew cfg st s) = flags s"
  "check_addr_ACK (tracenew cfg st s) = check_addr_ACK s"
  "total_msg_len (tracenew cfg st s) = total_msg_len s"
  "status (tracenew cfg st s) = status s"
  "regs (tracenew cfg st s) = regs s"
  "rx (tracenew cfg st s) = rx s"
  "nrx (tracenew cfg st s) = nrx s"
  "acc (tracenew cfg st s) = acc s"
  "mem (tracenew cfg st s) = mem s"
  "msgs (tracenew cfg st s) = msgs s"
  "systimer (tracenew cfg st s) = systimer s"
  by (simp_all add: tracenew_def stm32_i2c_tracenew_def stm32_i2c_traceclear_def Let_def)

lemma msg_at_eq: "msgv s' = msgv s \<Longrightarrow> msgs s' = msgs s \<Longrightarrow> msg_at s' = msg_at s"
  by (cases "msgv s") (simp_all add: msg_at_def)

lemma msg_at_traceevent [simp]: "msg_at (traceevent cfg e p s) = msg_at s"
  by (rule msg_at_eq) simp_all

lemma getreg_frame [simp]:
  "intstate (snd (stm32_i2c_getreg r s)) = intstate s"
  "msgc (snd (stm32_i2c_getreg r s)) = msgc s"
  "msgv (snd (stm32_i2c_getreg r s)) = msgv s"
  "ptr (snd (stm32_i2c_getreg r s)) = ptr s"
  "dcnt (snd (stm32_i2c_getreg r s)) = dcnt s"
  "flags (snd (stm32_i2c_getreg r s)) = flags s"
  "check_addr_ACK (snd (stm32_i2c_getreg r s)) = check_addr_ACK s"
  "total_msg_len (snd (stm32_i2c_getreg r s)) = total_msg_len s"
  "status (snd (stm32_i2c_getreg r s)) = status s"
  "regs (snd (stm32_i2c_getreg r s)) = regs s"
  "rx (snd (stm32_i2c_getreg r s)) = rx s"
  "acc (snd (stm32_i2c_getreg r s)) = acc s @ [GetReg r]"
  "mem (snd (stm32_i2c_getreg r s)) = mem s"
  "msgs (snd (stm32_i2c_getreg r s)) = msgs s"
  "systimer (snd (stm32_i2c_getreg r s)) = systimer s"
  "tndx (snd (stm32_i2c_getreg r s)) = tndx s"
  "trace (snd (stm32_i2c_getreg r s)) = trace s"
  by (simp_all add: stm32_i2c_getreg_def)

lemma getreg_nrx [simp]:
  "nrx (snd (stm32_i2c_getreg r s)) = (if r = DR then nrx s + 1 else nrx s)"
  "fst (stm32_i2c_getreg r s) = (if r = DR then rx s (nrx s) else regs s r)"
  by (simp_all add: stm32_i2c_getreg_def)

lemma modifyreg_frame [simp]:
  "intstate (stm32_i2c_modifyreg r c b s) = intstate s"
  "msgc (stm32_i2c_modifyreg r c b s) = msgc s"
  "msgv (stm32_i2c_modifyreg r c b s) = msgv s"
  "ptr (stm32_i2c_modifyreg r c b s) = ptr s"
  "dcnt (stm32_i2c_modifyreg r c b s) = dcnt s"
  "flags (stm32_i2c_modifyreg r c b s) = flags s"
  "check_addr_ACK (stm32_i2c_modifyreg r c b s) = check_addr_ACK s"
  "total_msg_len (stm32_i2c_modifyreg r c b s) = total_msg_len s"
  "status (stm32_i2c_modifyreg r c b s) = status s"
  "regs (stm32_i2c_modifyreg r c b s) = (regs s)(r := (regs s r AND NOT c) OR b)"
  "rx (stm32_i2c_modifyreg r c b s) = rx s"
  "nrx (stm32_i2c_modifyreg r c b s) = nrx s"
  "acc (stm32_i2c_modifyreg r c b s) = acc s @ [ModifyReg r c b]"
  "mem (stm32_i2c_modifyreg r c b s) = mem s"
  "msgs (stm32_i2c_modifyreg r c b s) = msgs s"
  "systimer (stm32_i2c_modifyreg r c b s) = systimer s"
  "tndx (stm32_i2c_modifyreg r c b s) = tndx s"
  "trace (stm32_i2c_modifyreg r c b s) = trace s"
  by (simp_all add: stm32_i2c_modifyreg_def)

lemma putreg_frame [simp]:
  "intstate (stm32_i2c_putreg r v s) = intstate s"
  "msgc (stm32_i2c_putreg r v s) = msgc s"
  "msgv (stm32_i2c_putreg r v s) = msgv s"
  "ptr (stm32_i2c_putreg r v s) = ptr s"
  "dcnt (stm32_i2c_putreg r v s) = dcnt s"
  "flags (stm32_i2c_putreg r v s) = flags s"
  "check_addr_ACK (stm32_i2c_putreg r v s) = check_addr_ACK s"
  "total_msg_len (stm32_i2c_putreg r v s) = total_msg_len s"
  "status (stm32_i2c_putreg r v s) = status s"
  "regs (stm32_i2c_putreg r v s) = (regs s)(r := v)"
  "rx (stm32_i2c_putreg r v s) = rx s"
  "nrx (stm32_i2c_putreg r v s) = nrx s"
  "acc (stm32_i2c_putreg r v s) = acc s @ [PutReg r v]"
  "mem (stm32_i2c_putreg r v s) = mem s"
  "msgs (stm32_i2c_putreg r v s) = msgs s"
  "systimer (stm32_i2c_putreg r v s) = systimer s"
  "tndx (stm32_i2c_putreg r v s) = tndx s"
  "trace (stm32_i2c_putreg r v s) = trace s"
  by (simp_all add: stm32_i2c_putreg_def)

lemma read_dr_frame [simp]:
  "intstate (read_dr_to_ptr s) = intstate s"
  "msgc (read_dr_to_ptr s) = msgc s"
  "msgv (read_dr_to_ptr s) = msgv s"
  "ptr (read_dr_to_ptr s) = ptr s + 1"
  "dcnt (read_dr_to_ptr s) = dcnt s"
  "flags (read_dr_to_ptr s) = flags s"
  "check_addr_ACK (read_dr_to_ptr s) = check_addr_ACK s"
  "total_msg_len (read_dr_to_ptr s) = total_msg_len s"
  "status (read_dr_to_ptr s) = status s"
  "regs (read_dr_to_ptr s) = regs s"
  "rx (read_dr_to_ptr s) = rx s"
  "nrx (read_dr_to_ptr s) = nrx s + 1"
  "acc (read_dr_to_ptr s) = acc s @ [GetReg DR]"
  "mem (read_dr_to_ptr s) = (mem s)(ptr s := ucast (rx s (nrx s)))"
  "msgs (read_dr_to_ptr s) = msgs s"
  "systimer (read_dr_to_ptr s) = systimer s"
  by (simp_all add: read_dr_to_ptr_def stm32_i2c_getreg_def)

lemma isr_prologue_frame:
  assumes "isr_prologue cfg s = Some (st, s1)"
  shows "st = ucast (regs s SR1)" "acc s1 = acc s @ [GetReg SR1]" "nrx s1 = nrx s"
    "mem s1 = mem s" "regs s1 = regs s" "rx s1 = rx s" "intstate s1 = intstate s"
    "check_addr_ACK s1 = check_addr_ACK s" "msgs s1 = msgs s" "status s1 = st"
  using assms
  by (auto simp: isr_prologue_def isr_msg_handling_1_def Let_def split_def
      split: if_splits option.splits)

lemma isr_prologue_no_advance:
  assumes "\<not> (dcnt s = -1 \<and> msgc s > 0)"
  shows "\<exists>s1. isr_prologue cfg s = Some (ucast (regs s SR1), s1) \<and>
     dcnt s1 = dcnt s \<and> msgc s1 = msgc s \<and> msgv s1 = msgv s \<and> ptr s1 = ptr s \<and>
     flags s1 = flags s \<and> total_msg_len s1 = total_msg_len s"
  using assms
  by (auto simp: isr_prologue_def isr_msg_handling_1_def Let_def split_def)


lemma msg_handling_2_frame [simp]:
  "dcnt (isr_msg_handling_2 cfg s) = dcnt s"
  "msgc (isr_msg_handling_2 cfg s) = msgc s"
  "ptr (isr_msg_handling_2 cfg s) = ptr s"
  "flags (isr_msg_handling_2 cfg s) = flags s"
  "check_addr_ACK (isr_msg_handling_2 cfg s) = check_addr_ACK s"
  "total_msg_len (isr_msg_handling_2 cfg s) = total_msg_len s"
  "status (isr_msg_handling_2 cfg s) = status s"
  "rx (isr_msg_handling_2 cfg s) = rx s"
  "nrx (isr_msg_handling_2 cfg s) = nrx s"
  "mem (isr_msg_handling_2 cfg s) = mem s"
  "msgs (isr_msg_handling_2 cfg s) = msgs s"
  "systimer (isr_msg_handling_2 cfg s) = systimer s"
  by (simp_all add: isr_msg_handling_2_def Let_def split_def)

lemma msg_handling_2_acc:
  "acc (isr_msg_handling_2 cfg s) =
     acc s @ (if dcnt s = -1 \<and> msgc s = 0 \<and> \<not> CONFIG_I2C_POLLED cfg
              then [GetReg CR2, PutReg CR2 (regs s CR2 AND NOT (I2C_CR2_ALLINTS cfg))]
              else [])"
  by (simp add: isr_msg_handling_2_def Let_def split_def)




lemma sendstop_frame [simp]:
  "intstate (stm32_i2c_sendstop cfg s) = intstate s"
  "msgc (stm32_i2c_sendstop cfg s) = msgc s"
  "msgv (stm32_i2c_sendstop cfg s) = msgv s"
  "ptr (stm32_i2c_sendstop cfg s) = ptr s"
  "dcnt (stm32_i2c_sendstop cfg s) = dcnt s"
  "flags (stm32_i2c_sendstop cfg s) = flags s"
  "check_addr_ACK (stm32_i2c_sendstop cfg s) = check_addr_ACK s"
  "total_msg_len (stm32_i2c_sendstop cfg s) = total_msg_len s"
  "status (stm32_i2c_sendstop cfg s) = status s"
  "regs (stm32_i2c_sendstop cfg s) =
     (regs s)(CR1 := (regs s CR1 AND NOT (I2C_CR1_ACK cfg)) OR I2C_CR1_STOP cfg)"
  "rx (stm32_i2c_sendstop cfg s) = rx s"
  "nrx (stm32_i2c_sendstop cfg s) = nrx s"
  "acc (stm32_i2c_sendstop cfg s) = acc s @ [ModifyReg CR1 (I2C_CR1_ACK cfg) (I2C_CR1_STOP cfg)]"
  "mem (stm32_i2c_sendstop cfg s) = mem s"
  "msgs (stm32_i2c_sendstop cfg s) = msgs s"
  "systimer (stm32_i2c_sendstop cfg s) = systimer s"
  by (simp_all add: stm32_i2c_sendstop_def)

lemma sendstart_frame [simp]:
  "intstate (stm32_i2c_sendstart cfg s) = intstate s"
  "msgc (stm32_i2c_sendstart cfg s) = msgc s"
  "msgv (stm32_i2c_sendstart cfg s) = msgv s"
  "ptr (stm32_i2c_sendstart cfg s) = ptr s"
  "dcnt (stm32_i2c_sendstart cfg s) = dcnt s"
  "flags (stm32_i2c_sendstart cfg s) = flags s"
  "check_addr_ACK (stm32_i2c_sendstart cfg s) = check_addr_ACK s"
  "total_msg_len (stm32_i2c_sendstart cfg s) = total_msg_len s"
  "status (stm32_i2c_sendstart cfg s) = status s"
  "regs (stm32_i2c_sendstart cfg s) =
     (regs s)(CR1 := (regs s CR1 AND NOT (I2C_CR1_ACK cfg)) OR I2C_CR1_START cfg)"
  "rx (stm32_i2c_sendstart cfg s) = rx s"
  "nrx (stm32_i2c_sendstart cfg s) = nrx s"
  "acc (stm32_i2c_sendstart cfg s) = acc s @ [ModifyReg CR1 (I2C_CR1_ACK cfg) (I2C_CR1_START cfg)]"
  "mem (stm32_i2c_sendstart cfg s) = mem s"
  "msgs (stm32_i2c_sendstart cfg s) = msgs s"
  "systimer (stm32_i2c_sendstart cfg s) = systimer s"
  by (simp_all add: stm32_i2c_sendstart_def)

lemma isr_read_selected:
  assumes "isr_prologue cfg s = Some (st, s1)"
    and "flags s1 AND I2C_M_READ cfg \<noteq> 0"
    and "st AND I2C_SR1_RXNE cfg \<noteq> 0"
    and "st AND I2C_SR1_SB cfg = 0"
    and "check_addr_ACK s1 \<longrightarrow> CONFIG_I2C_POLLED cfg \<and> st AND I2C_SR1_ADDR cfg = 0"
  shows "stm32_i2c_isr cfg s = Some (isr_msg_handling_2 cfg (isr_read_mode cfg st s1))"
  using assms by (auto simp: stm32_i2c_isr_def isr_dispatch_def)

lemma len3_not_short: "3 \<le> (w :: 8 word) \<Longrightarrow> w \<noteq> 1 \<and> w \<noteq> 2"
  by (auto simp: word_le_nat_alt)




lemma read_last_two:
  assumes "3 \<le> total_msg_len s \<or> total_msg_len s = 2" "st AND I2C_SR1_BTF cfg \<noteq> 0" "dcnt s = 2"
  shows "dcnt (isr_read_mode cfg st s) = -1" "msgc (isr_read_mode cfg st s) = msgc s"
    "nrx (isr_read_mode cfg st s) = nrx s + 2"
    "mem (isr_read_mode cfg st s) =
       (mem s)(ptr s := ucast (rx s (nrx s)), ptr s + 1 := ucast (rx s (nrx s + 1)))"
    "ptr (isr_read_mode cfg st s) = ptr s + 2"
    "regs (isr_read_mode cfg st s) =
       (regs s)(CR1 := (regs s CR1 AND NOT (I2C_CR1_ACK cfg)) OR I2C_CR1_STOP cfg)"
    "acc (isr_read_mode cfg st s) =
       acc s @ [ModifyReg CR1 (I2C_CR1_ACK cfg) (I2C_CR1_STOP cfg), GetReg DR, GetReg DR, GetReg SR2]"
proof -
  from assms(1) have "total_msg_len s \<noteq> 1"
    using len3_not_short by auto
  with assms show "dcnt (isr_read_mode cfg st s) = -1" "msgc (isr_read_mode cfg st s) = msgc s"
    "nrx (isr_read_mode cfg st s) = nrx s + 2"
    "mem (isr_read_mode cfg st s) =
       (mem s)(ptr s := ucast (rx s (nrx s)), ptr s + 1 := ucast (rx s (nrx s + 1)))"
    "ptr (isr_read_mode cfg st s) = ptr s + 2"
    "regs (isr_read_mode cfg st s) =
       (regs s)(CR1 := (regs s CR1 AND NOT (I2C_CR1_ACK cfg)) OR I2C_CR1_STOP cfg)"
    "acc (isr_read_mode cfg st s) =
       acc s @ [ModifyReg CR1 (I2C_CR1_ACK cfg) (I2C_CR1_STOP cfg), GetReg DR, GetReg DR, GetReg SR2]"
    by (auto simp: isr_read_mode_def Let_def)
qed

lemma read_two_wait:
  assumes "total_msg_len s = 2" "st AND I2C_SR1_BTF cfg = 0"
  shows "nrx (isr_read_mode cfg st s) = nrx s" "mem (isr_read_mode cfg st s) = mem s"
    "dcnt s = 2 \<Longrightarrow> dcnt (isr_read_mode cfg st s) = 2"
    "dcnt s = 2 \<Longrightarrow> acc (isr_read_mode cfg st s) = acc s @ [GetReg SR2]"
  using assms by (simp_all add: isr_read_mode_def)




lemma isr_write_selected:
  assumes "isr_prologue cfg s = Some (st, s1)"
    and "flags s1 AND I2C_M_READ cfg = 0"
    and "st AND (I2C_SR1_ADDR cfg OR I2C_SR1_TXE cfg) \<noteq> 0"
    and "st AND I2C_SR1_SB cfg = 0"
    and "check_addr_ACK s1 \<longrightarrow> CONFIG_I2C_POLLED cfg \<or> st AND I2C_SR1_ADDR cfg \<noteq> 0"
  shows "stm32_i2c_isr cfg s = map_option (isr_msg_handling_2 cfg) (isr_write_mode cfg s1)"
  using assms by (auto simp: stm32_i2c_isr_def isr_dispatch_def)

lemma write_stop:
  assumes "dcnt s = 0" "msgc s = 0"
  shows "\<exists>w. isr_write_mode cfg s = Some w \<and> dcnt w = -1 \<and> msgc w = 0 \<and>
     regs w CR2 = regs s CR2 \<and> nrx w = nrx s \<and>
     acc w = acc s @ [GetReg SR2, ModifyReg CR1 (I2C_CR1_ACK cfg) (I2C_CR1_STOP cfg)]"
  using assms by (simp add: isr_write_mode_def Let_def)

lemma write_restart:
  assumes "dcnt s = 0" "msgc s \<noteq> 0" "msg_at s = Some m"
    "flags_m m = 0 \<or> flags_m m AND I2C_M_READ cfg \<noteq> 0"
  shows "\<exists>w. isr_write_mode cfg s = Some w \<and> dcnt w = -1 \<and> msgc w = msgc s \<and>
     nrx w = nrx s \<and>
     acc w = acc s @ [GetReg SR2, ModifyReg CR1 (I2C_CR1_ACK cfg) (I2C_CR1_START cfg)]"
proof -
  have m: "msg_at (snd (stm32_i2c_getreg SR2 s)\<lparr>check_addr_ACK := False\<rparr>) = Some m"
    using assms(3)
    by (simp add: msg_at_eq [of "snd (stm32_i2c_getreg SR2 s)\<lparr>check_addr_ACK := False\<rparr>" s])
  have pos: "0 < msgc s" using assms(2) by (simp add: word_gt_0)
  show ?thesis using assms pos by (auto simp: isr_write_mode_def Let_def m)
qed

lemma write_no_restart:
  assumes "dcnt s = 0" "msgc s \<noteq> 0" "msg_at s = Some m"
    "flags_m m AND I2C_M_NORESTART cfg \<noteq> 0" "flags_m m AND I2C_M_READ cfg = 0"
  shows "\<exists>w. isr_write_mode cfg s = Some w \<and> dcnt w = -1 \<and> msgc w = msgc s \<and>
     nrx w = nrx s \<and> acc w = acc s @ [GetReg SR2]"
proof -
  have m: "msg_at (snd (stm32_i2c_getreg SR2 s)\<lparr>check_addr_ACK := False\<rparr>) = Some m"
    using assms(3)
    by (simp add: msg_at_eq [of "snd (stm32_i2c_getreg SR2 s)\<lparr>check_addr_ACK := False\<rparr>" s])
  have pos: "0 < msgc s" using assms(2) by (simp add: word_gt_0)
  have nz: "flags_m m \<noteq> 0" using assms(4) by auto
  show ?thesis using assms pos nz by (auto simp: isr_write_mode_def Let_def m)
qed


lemma sys_reading_prologue:
  assumes "d \<noteq> -1"
  shows "\<exists>s1. isr_prologue cfg (sys_reading d n sr) = Some (ucast sr, s1) \<and>
     dcnt s1 = d \<and> msgc s1 = 0 \<and> ptr s1 = 0 \<and> flags s1 = 1 \<and> total_msg_len s1 = n \<and>
     \<not> check_addr_ACK s1"
proof -
  let ?s = "sys_reading d n sr"
  have "\<not> (dcnt ?s = -1 \<and> msgc ?s > 0)" using assms by (simp add: sys_reading_def)
  from isr_prologue_no_advance [OF this, of cfg] obtain s1
    where pro: "isr_prologue cfg ?s = Some (ucast (regs ?s SR1), s1)"
      and s1: "dcnt s1 = dcnt ?s" "msgc s1 = msgc ?s" "ptr s1 = ptr ?s" "flags s1 = flags ?s"
        "total_msg_len s1 = total_msg_len ?s"
    by blast
  from isr_prologue_frame(8) [OF pro] s1 pro show ?thesis
    by (simp add: sys_reading_def sys0_def)
qed

lemma sys_written_prologue:
  "\<exists>s1. isr_prologue cfg (sys_written ms sr) = Some (ucast sr, s1) \<and>
     dcnt s1 = 0 \<and> msgc s1 = of_nat (length ms) \<and> flags s1 = 0 \<and>
     \<not> check_addr_ACK s1 \<and> msg_at s1 = msg_at (sys_written ms sr)"
proof -
  let ?s = "sys_written ms sr"
  have "\<not> (dcnt ?s = -1 \<and> msgc ?s > 0)" by (simp add: sys_written_def)
  from isr_prologue_no_advance [OF this, of cfg] obtain s1
    where pro: "isr_prologue cfg ?s = Some (ucast (regs ?s SR1), s1)"
      and s1: "dcnt s1 = dcnt ?s" "msgc s1 = msgc ?s" "msgv s1 = msgv ?s" "flags s1 = flags ?s"
    by blast
  note fr = isr_prologue_frame [OF pro]
  have "msg_at s1 = msg_at ?s" using s1 fr by (intro msg_at_eq) simp_all
  with fr(8) s1 pro show ?thesis
    by (simp add: sys_written_def sys0_def)
qed

























text \<open>The definitions to unfold when the routine is run on a concrete state.\<close>

lemmas isr_eval =
  stm32_i2c_isr_def isr_prologue_def isr_dispatch_def isr_msg_handling_1_def
  isr_msg_handling_2_def isr_address_handling_def isr_address_nacked_def
  isr_address_acked_read_def isr_write_mode_def isr_read_mode_def isr_empty_call_def
  isr_error_handler_def read_dr_to_ptr_def traceevent_addr_def msg_at_def
  tracenew_def traceevent_def tracereset_def stm32_i2c_tracenew_def stm32_i2c_traceevent_def
  stm32_i2c_traceclear_def stm32_i2c_tracereset_def
  stm32_i2c_getreg_def stm32_i2c_putreg_def stm32_i2c_modifyreg_def
  stm32_i2c_sendstart_def stm32_i2c_sendstop_def stm32_i2c_clrstart_def
  Let_def split_def

lemmas event_defs =
  I2CEVENT_NONE_def I2CEVENT_STATE_ERROR_def I2CEVENT_ISR_SHUTDOWN_def
  I2CEVENT_ISR_EMPTY_CALL_def I2CEVENT_MSG_HANDLING_def I2CEVENT_POLL_DEV_NOT_RDY_def
  I2CEVENT_ISR_CALL_def I2CEVENT_SENDADDR_def I2CEVENT_ADDR_HDL_READ_1_def
  I2CEVENT_ADDR_HDL_READ_2_def I2CEVENT_EMPTY_MSG_def I2CEVENT_ADDRESS_ACKED_def
  I2CEVENT_ADDRESS_ACKED_READ_1_def I2CEVENT_ADDRESS_ACKED_READ_2_def
  I2CEVENT_ADDRESS_NACKED_def I2CEVENT_READ_def I2CEVENT_READ_3_def I2CEVENT_READ_2_def
  I2CEVENT_READ_SR_EMPTY_def I2CEVENT_READ_ERROR_def I2CEVENT_WRITE_TO_DR_def
  I2CEVENT_WRITE_STOP_def I2CEVENT_WRITE_RESTART_def I2CEVENT_WRITE_NO_RESTART_def
  I2CEVENT_WRITE_ERROR_def I2CEVENT_WRITE_FLAG_ERROR_def

subsection \<open>Reading three bytes or more\<close>





subsection \<open>Reading exactly two bytes\<close>

text \<open>
  C2. An invocation that dispatches to the read mode for a message whose
  total-length snapshot is 2. With RXNE set and BTF clear the data
  register is not read. With BTF set and both bytes outstanding the
  routine requests STOP once, then reads the data register twice, stores
  the two values at the buffer pointer and the address after it, and
  leaves the counter at -1.
\<close>

theorem read_exactly_two:
  assumes pro: "isr_prologue cfg s = Some (st, s1)"
    and rd: "flags s1 AND I2C_M_READ cfg \<noteq> 0"
    and len: "total_msg_len s1 = 2"
    and rxne: "st AND I2C_SR1_RXNE cfg \<noteq> 0"
    and sb: "st AND I2C_SR1_SB cfg = 0"
    and ack: "check_addr_ACK s1 \<longrightarrow> CONFIG_I2C_POLLED cfg \<and> st AND I2C_SR1_ADDR cfg = 0"
  shows "\<exists>s'. stm32_i2c_isr cfg s = Some s' \<and>
    (st AND I2C_SR1_BTF cfg = 0 \<longrightarrow>
       nrx s' = nrx s \<and> mem s' = mem s \<and>
       (dcnt s1 = 2 \<longrightarrow> dcnt s' = 2 \<and> acc s' = acc s @ [GetReg SR1, GetReg SR2])) \<and>
    (st AND I2C_SR1_BTF cfg \<noteq> 0 \<and> dcnt s1 = 2 \<longrightarrow>
       nrx s' = nrx s + 2 \<and> dcnt s' = -1 \<and> ptr s' = ptr s1 + 2 \<and>
       mem s' = (mem s)(ptr s1 := ucast (rx s (nrx s)), ptr s1 + 1 := ucast (rx s (nrx s + 1))) \<and>
       acc s' = acc s @ [GetReg SR1, ModifyReg CR1 (I2C_CR1_ACK cfg) (I2C_CR1_STOP cfg),
                         GetReg DR, GetReg DR, GetReg SR2] @
         (if msgc s1 = 0 \<and> \<not> CONFIG_I2C_POLLED cfg
          then [GetReg CR2, PutReg CR2 (regs s CR2 AND NOT (I2C_CR2_ALLINTS cfg))] else []))"
proof -
  note fr = isr_prologue_frame [OF pro]
  have sel: "stm32_i2c_isr cfg s = Some (isr_msg_handling_2 cfg (isr_read_mode cfg st s1))"
    using pro rd rxne sb ack by (rule isr_read_selected)
  have a: "st AND I2C_SR1_BTF cfg = 0 \<longrightarrow> ?thesis"
    using len fr(2-6) by (simp add: sel msg_handling_2_acc read_two_wait)
  have b: "st AND I2C_SR1_BTF cfg \<noteq> 0 \<longrightarrow> ?thesis"
    using len fr(2-6) by (auto simp: sel msg_handling_2_acc read_last_two)
  from a b show ?thesis by blast
qed

theorem read_exactly_two_witness:
  "map_option dcnt (stm32_i2c_isr stm32_cfg (sys_reading 2 2 0x0040)) = Some 2 \<and>
   map_option nrx (stm32_i2c_isr stm32_cfg (sys_reading 2 2 0x0040)) = Some 0 \<and>
   map_option dcnt (stm32_i2c_isr stm32_cfg (sys_reading 2 2 0x0044)) = Some (-1) \<and>
   map_option mem (stm32_i2c_isr stm32_cfg (sys_reading 2 2 0x0044)) =
     Some ((mem sys0)(0 := 1, 1 := 2)) \<and>
   map_option acc (stm32_i2c_isr stm32_cfg (sys_reading 2 2 0x0044)) =
     Some [GetReg SR1, ModifyReg CR1 0x0400 0x0200, GetReg DR, GetReg DR, GetReg SR2,
           GetReg CR2, PutReg CR2 0]"
proof -
  have run: "\<exists>s'. stm32_i2c_isr stm32_cfg (sys_reading 2 2 sr) = Some s' \<and>
      (ucast sr AND I2C_SR1_BTF stm32_cfg = 0 \<longrightarrow> nrx s' = 0 \<and> dcnt s' = 2) \<and>
      (ucast sr AND I2C_SR1_BTF stm32_cfg \<noteq> 0 \<longrightarrow>
         dcnt s' = -1 \<and> mem s' = (mem sys0)(0 := 1, 1 := 2) \<and>
         acc s' = [GetReg SR1, ModifyReg CR1 0x0400 0x0200, GetReg DR, GetReg DR,
           GetReg SR2, GetReg CR2, PutReg CR2 0])"
    if rxne: "ucast sr AND I2C_SR1_RXNE stm32_cfg \<noteq> 0"
      and sb: "ucast sr AND I2C_SR1_SB stm32_cfg = 0" for sr
  proof -
    from sys_reading_prologue [of 2 stm32_cfg 2 sr] obtain s1
      where pro: "isr_prologue stm32_cfg (sys_reading 2 2 sr) = Some (ucast sr, s1)"
        and s1: "dcnt s1 = 2" "msgc s1 = 0" "ptr s1 = 0" "flags s1 = 1" "total_msg_len s1 = 2"
          "\<not> check_addr_ACK s1"
      by auto
    have rd: "flags s1 AND I2C_M_READ stm32_cfg \<noteq> 0" by (simp add: s1 stm32_cfg_def)
    have ack: "check_addr_ACK s1 \<longrightarrow>
        CONFIG_I2C_POLLED stm32_cfg \<and> ucast sr AND I2C_SR1_ADDR stm32_cfg = 0"
      by (simp add: s1)
    from read_exactly_two [OF pro rd s1(5) rxne sb ack] s1 show ?thesis
      by (auto simp: sys_reading_def sys0_def stm32_cfg_def)
  qed
  have a: "(ucast (0x0040 :: 16 word) :: 32 word) AND I2C_SR1_RXNE stm32_cfg \<noteq> 0"
      "(ucast (0x0040 :: 16 word) :: 32 word) AND I2C_SR1_SB stm32_cfg = 0"
      "(ucast (0x0040 :: 16 word) :: 32 word) AND I2C_SR1_BTF stm32_cfg = 0"
      "(ucast (0x0044 :: 16 word) :: 32 word) AND I2C_SR1_RXNE stm32_cfg \<noteq> 0"
      "(ucast (0x0044 :: 16 word) :: 32 word) AND I2C_SR1_SB stm32_cfg = 0"
      "(ucast (0x0044 :: 16 word) :: 32 word) AND I2C_SR1_BTF stm32_cfg \<noteq> 0"
    by (simp_all add: stm32_cfg_def)
  from run [of "0x0040"] run [of "0x0044"] a show ?thesis by auto
qed

subsection \<open>Reading a single byte\<close>




subsection \<open>The end of a write message\<close>

text \<open>
  C4, as amended. An invocation that dispatches to the write mode with the
  counter at 0 (\<open>s1\<close> is the state at the phase dispatch). With no message
  remaining it requests STOP once and sets the counter to -1. With a next
  message whose flags are zero or include the read flag it requests a
  repeated START, no STOP, and sets the counter to -1; this is the case
  of a write followed by a read. With a next message that carries the
  no-restart flag and not the read flag it sets the counter to -1 and
  touches no control register.
\<close>

theorem write_counter_zero:
  assumes pro: "isr_prologue cfg s = Some (st, s1)"
    and d: "dcnt s1 = 0"
    and wr: "flags s1 AND I2C_M_READ cfg = 0"
    and ev: "st AND (I2C_SR1_ADDR cfg OR I2C_SR1_TXE cfg) \<noteq> 0"
    and sb: "st AND I2C_SR1_SB cfg = 0"
    and ack: "check_addr_ACK s1 \<longrightarrow> CONFIG_I2C_POLLED cfg \<or> st AND I2C_SR1_ADDR cfg \<noteq> 0"
  shows "(msgc s1 = 0 \<longrightarrow>
       (\<exists>s'. stm32_i2c_isr cfg s = Some s' \<and> dcnt s' = -1 \<and>
          acc s' = acc s @ [GetReg SR1, GetReg SR2,
                            ModifyReg CR1 (I2C_CR1_ACK cfg) (I2C_CR1_STOP cfg)] @
            (if CONFIG_I2C_POLLED cfg then []
             else [GetReg CR2, PutReg CR2 (regs s CR2 AND NOT (I2C_CR2_ALLINTS cfg))]))) \<and>
    (\<forall>m. msgc s1 \<noteq> 0 \<and> msg_at s1 = Some m \<longrightarrow>
       (flags_m m = 0 \<or> flags_m m AND I2C_M_READ cfg \<noteq> 0 \<longrightarrow>
          (\<exists>s'. stm32_i2c_isr cfg s = Some s' \<and> dcnt s' = -1 \<and>
             acc s' = acc s @ [GetReg SR1, GetReg SR2,
                               ModifyReg CR1 (I2C_CR1_ACK cfg) (I2C_CR1_START cfg)])) \<and>
       (flags_m m AND I2C_M_NORESTART cfg \<noteq> 0 \<and> flags_m m AND I2C_M_READ cfg = 0 \<longrightarrow>
          (\<exists>s'. stm32_i2c_isr cfg s = Some s' \<and> dcnt s' = -1 \<and>
             acc s' = acc s @ [GetReg SR1, GetReg SR2])))"
proof -
  note fr = isr_prologue_frame [OF pro]
  note sel = isr_write_selected [OF pro wr ev sb ack]
  have stop: "msgc s1 = 0 \<longrightarrow>
       (\<exists>s'. stm32_i2c_isr cfg s = Some s' \<and> dcnt s' = -1 \<and>
          acc s' = acc s @ [GetReg SR1, GetReg SR2,
                            ModifyReg CR1 (I2C_CR1_ACK cfg) (I2C_CR1_STOP cfg)] @
            (if CONFIG_I2C_POLLED cfg then []
             else [GetReg CR2, PutReg CR2 (regs s CR2 AND NOT (I2C_CR2_ALLINTS cfg))]))"
  proof
    assume z: "msgc s1 = 0"
    from write_stop [OF d z, of cfg] obtain w where w: "isr_write_mode cfg s1 = Some w"
      "dcnt w = -1" "msgc w = 0" "regs w CR2 = regs s1 CR2"
      "acc w = acc s1 @ [GetReg SR2, ModifyReg CR1 (I2C_CR1_ACK cfg) (I2C_CR1_STOP cfg)]"
      by blast
    then show "\<exists>s'. stm32_i2c_isr cfg s = Some s' \<and> dcnt s' = -1 \<and>
          acc s' = acc s @ [GetReg SR1, GetReg SR2,
                            ModifyReg CR1 (I2C_CR1_ACK cfg) (I2C_CR1_STOP cfg)] @
            (if CONFIG_I2C_POLLED cfg then []
             else [GetReg CR2, PutReg CR2 (regs s CR2 AND NOT (I2C_CR2_ALLINTS cfg))])"
      using fr(2,5) by (simp add: sel msg_handling_2_acc)
  qed
  have restart: "\<exists>s'. stm32_i2c_isr cfg s = Some s' \<and> dcnt s' = -1 \<and>
             acc s' = acc s @ [GetReg SR1, GetReg SR2,
                               ModifyReg CR1 (I2C_CR1_ACK cfg) (I2C_CR1_START cfg)]"
    if nz: "msgc s1 \<noteq> 0" and m: "msg_at s1 = Some m"
      and fl: "flags_m m = 0 \<or> flags_m m AND I2C_M_READ cfg \<noteq> 0" for m
  proof -
    from write_restart [OF d nz m fl] obtain w where w: "isr_write_mode cfg s1 = Some w"
      "dcnt w = -1" "msgc w = msgc s1"
      "acc w = acc s1 @ [GetReg SR2, ModifyReg CR1 (I2C_CR1_ACK cfg) (I2C_CR1_START cfg)]"
      by blast
    then show ?thesis using fr(2) nz by (simp add: sel msg_handling_2_acc)
  qed
  have norestart: "\<exists>s'. stm32_i2c_isr cfg s = Some s' \<and> dcnt s' = -1 \<and>
             acc s' = acc s @ [GetReg SR1, GetReg SR2]"
    if nz: "msgc s1 \<noteq> 0" and m: "msg_at s1 = Some m"
      and fl: "flags_m m AND I2C_M_NORESTART cfg \<noteq> 0" "flags_m m AND I2C_M_READ cfg = 0" for m
  proof -
    from write_no_restart [OF d nz m fl] obtain w where w: "isr_write_mode cfg s1 = Some w"
      "dcnt w = -1" "msgc w = msgc s1" "acc w = acc s1 @ [GetReg SR2]"
      by blast
    then show ?thesis using fr(2) nz by (simp add: sel msg_handling_2_acc)
  qed
  from stop restart norestart show ?thesis by blast
qed

theorem write_counter_zero_witness:
  "map_option dcnt (stm32_i2c_isr stm32_cfg (sys_written [] 0x0084)) = Some (-1) \<and>
   map_option acc (stm32_i2c_isr stm32_cfg (sys_written [] 0x0084)) =
     Some [GetReg SR1, GetReg SR2, ModifyReg CR1 0x0400 0x0200, GetReg CR2, PutReg CR2 0] \<and>
   map_option dcnt (stm32_i2c_isr stm32_cfg (sys_written [read3_msg 0x0001] 0x0084)) = Some (-1) \<and>
   map_option acc (stm32_i2c_isr stm32_cfg (sys_written [read3_msg 0x0001] 0x0084)) =
     Some [GetReg SR1, GetReg SR2, ModifyReg CR1 0x0400 0x0100] \<and>
   map_option dcnt (stm32_i2c_isr stm32_cfg (sys_written [read3_msg 0x0080] 0x0084)) = Some (-1) \<and>
   map_option acc (stm32_i2c_isr stm32_cfg (sys_written [read3_msg 0x0080] 0x0084)) =
     Some [GetReg SR1, GetReg SR2]"
proof -
  have st: "(ucast (0x0084 :: 16 word) :: 32 word) AND
        (I2C_SR1_ADDR stm32_cfg OR I2C_SR1_TXE stm32_cfg) \<noteq> 0"
      "(ucast (0x0084 :: 16 word) :: 32 word) AND I2C_SR1_SB stm32_cfg = 0"
    by (simp_all add: stm32_cfg_def)
  have run:
    "(msgc s1 = 0 \<longrightarrow>
       (\<exists>s'. stm32_i2c_isr stm32_cfg (sys_written ms 0x0084) = Some s' \<and> dcnt s' = -1 \<and>
          acc s' = [GetReg SR1, GetReg SR2, ModifyReg CR1 0x0400 0x0200, GetReg CR2, PutReg CR2 0])) \<and>
    (\<forall>m. msgc s1 \<noteq> 0 \<and> msg_at s1 = Some m \<longrightarrow>
       (flags_m m = 0 \<or> flags_m m AND 1 \<noteq> 0 \<longrightarrow>
          (\<exists>s'. stm32_i2c_isr stm32_cfg (sys_written ms 0x0084) = Some s' \<and> dcnt s' = -1 \<and>
             acc s' = [GetReg SR1, GetReg SR2, ModifyReg CR1 0x0400 0x0100])) \<and>
       (flags_m m AND 0x80 \<noteq> 0 \<and> flags_m m AND 1 = 0 \<longrightarrow>
          (\<exists>s'. stm32_i2c_isr stm32_cfg (sys_written ms 0x0084) = Some s' \<and> dcnt s' = -1 \<and>
             acc s' = [GetReg SR1, GetReg SR2])))"
    if pro: "isr_prologue stm32_cfg (sys_written ms 0x0084) = Some (ucast (0x0084 :: 16 word), s1)"
      and s1: "dcnt s1 = 0" "flags s1 = 0" "\<not> check_addr_ACK s1" for ms s1
  proof -
    have wr: "flags s1 AND I2C_M_READ stm32_cfg = 0" by (simp add: s1)
    have ack: "check_addr_ACK s1 \<longrightarrow>
        CONFIG_I2C_POLLED stm32_cfg \<or> ucast (0x0084 :: 16 word) AND I2C_SR1_ADDR stm32_cfg \<noteq> 0"
      by (simp add: s1)
    from write_counter_zero [OF pro s1(1) wr st ack] show ?thesis
      by (simp add: sys_written_def sys0_def stm32_cfg_def)
  qed
  have c1: "map_option dcnt (stm32_i2c_isr stm32_cfg (sys_written [] 0x0084)) = Some (-1) \<and>
   map_option acc (stm32_i2c_isr stm32_cfg (sys_written [] 0x0084)) =
     Some [GetReg SR1, GetReg SR2, ModifyReg CR1 0x0400 0x0200, GetReg CR2, PutReg CR2 0]"
  proof -
    from sys_written_prologue [of stm32_cfg "[]" "0x0084"] obtain s1 where
      p: "isr_prologue stm32_cfg (sys_written [] 0x0084) = Some (ucast (0x0084 :: 16 word), s1)"
      "dcnt s1 = 0" "flags s1 = 0" "\<not> check_addr_ACK s1" and c: "msgc s1 = 0"
      by auto
    from run [OF p] c show ?thesis by auto
  qed
  have c23: "map_option dcnt (stm32_i2c_isr stm32_cfg (sys_written [read3_msg fl] 0x0084)) = Some (-1) \<and>
     map_option acc (stm32_i2c_isr stm32_cfg (sys_written [read3_msg fl] 0x0084)) =
       Some (if fl = 1 then [GetReg SR1, GetReg SR2, ModifyReg CR1 0x0400 0x0100]
             else [GetReg SR1, GetReg SR2])"
    if fl: "fl = 0x0001 \<or> fl = 0x0080" for fl :: "16 word"
  proof -
    from sys_written_prologue [of stm32_cfg "[read3_msg fl]" "0x0084"] obtain s1 where
      p: "isr_prologue stm32_cfg (sys_written [read3_msg fl] 0x0084) = Some (ucast (0x0084 :: 16 word), s1)"
      "dcnt s1 = 0" "flags s1 = 0" "\<not> check_addr_ACK s1"
      and c: "msgc s1 = 1" "msg_at s1 = msg_at (sys_written [read3_msg fl] 0x0084)"
      by auto
    have "msg_at (sys_written [read3_msg fl] 0x0084) = Some (read3_msg fl)"
      by (simp add: msg_at_def sys_written_def)
    with c(2) have m: "msg_at s1 = Some (read3_msg fl)" by simp
    from run [OF p] c(1) m fl show ?thesis
      by (auto simp: read3_msg_def)
  qed
  from c1 c23 [of "0x0001"] c23 [of "0x0080"] show ?thesis by simp
qed

theorem norestart_read_restarts:
  "flags_m (read3_msg 0x0081) AND I2C_M_NORESTART stm32_cfg \<noteq> 0 \<and>
   map_option acc (stm32_i2c_isr stm32_cfg (sys_written [read3_msg 0x0081] 0x0084)) =
     Some [GetReg SR1, GetReg SR2,
           ModifyReg CR1 (I2C_CR1_ACK stm32_cfg) (I2C_CR1_START stm32_cfg)]"
proof -
  let ?s = "sys_written [read3_msg 0x0081] 0x0084"
  from sys_written_prologue [of stm32_cfg "[read3_msg 0x0081]" "0x0084"] obtain s1 where
    p: "isr_prologue stm32_cfg ?s = Some (ucast (0x0084 :: 16 word), s1)"
    and s1: "dcnt s1 = 0" "flags s1 = 0" "\<not> check_addr_ACK s1" "msgc s1 = 1"
      "msg_at s1 = msg_at ?s"
    by auto
  note fr = isr_prologue_frame [OF p]
  have "msg_at ?s = Some (read3_msg 0x0081)"
    by (simp add: msg_at_def sys_written_def)
  with s1(5) have m: "msg_at s1 = Some (read3_msg 0x0081)" by simp
  have accs: "acc ?s = []" by (simp add: sys_written_def sys0_def)
  have sel: "stm32_i2c_isr stm32_cfg ?s =
      map_option (isr_msg_handling_2 stm32_cfg) (isr_write_mode stm32_cfg s1)"
    by (rule isr_write_selected [OF p]) (simp_all add: s1 stm32_cfg_def)
  have "msgc s1 \<noteq> 0" by (simp add: s1)
  from write_restart [OF s1(1) this m, of stm32_cfg] obtain w where
    "isr_write_mode stm32_cfg s1 = Some w" "dcnt w = -1" "msgc w = msgc s1"
    "acc w = acc s1 @ [GetReg SR2, ModifyReg CR1 (I2C_CR1_ACK stm32_cfg) (I2C_CR1_START stm32_cfg)]"
    by (auto simp: read3_msg_def stm32_cfg_def)
  then have "map_option acc (stm32_i2c_isr stm32_cfg ?s) =
     Some [GetReg SR1, GetReg SR2,
           ModifyReg CR1 (I2C_CR1_ACK stm32_cfg) (I2C_CR1_START stm32_cfg)]"
    using fr(2) s1 accs by (simp add: sel msg_handling_2_acc)
  moreover have "flags_m (read3_msg 0x0081) AND I2C_M_NORESTART stm32_cfg \<noteq> 0"
    by (simp add: read3_msg_def stm32_cfg_def)
  ultimately show ?thesis by simp
qed

subsection \<open>Termination\<close>






subsection \<open>Advancing to the next message\<close>














subsection \<open>Classification of the final status\<close>






subsection \<open>A next message with unrecognized flags\<close>

text \<open>
  C8, as amended. An invocation that dispatches to the write mode with,
  at that point, the counter at 0, messages remaining, and a next message
  whose flags are not zero and contain neither the read nor the
  no-restart flag (\<open>s1\<close> is the state at the phase dispatch). The
  invocation reads SR2, clears the pending flag and records the trace
  event: its result is exactly the state \<open>s1\<close> after these three steps.
  So the only register accesses of the invocation are the reads of SR1
  and SR2; the registers, the memory, the counter, the message count, the
  message cursor, the buffer pointer and the handshake state are
  unchanged, and the termination check does not fire. With tracing
  compiled in, the entry at the trace index holds the flag-error code and
  the flags of the next message.
\<close>

theorem write_unrecognized_flag:
  assumes pro: "isr_prologue cfg s = Some (st, s1)"
    and d: "dcnt s1 = 0" and nz: "msgc s1 > 0"
    and m: "msg_at s1 = Some m"
    and fl: "flags_m m \<noteq> 0" "flags_m m AND I2C_M_READ cfg = 0"
      "flags_m m AND I2C_M_NORESTART cfg = 0"
    and wr: "flags s1 AND I2C_M_READ cfg = 0"
    and ev: "st AND (I2C_SR1_ADDR cfg OR I2C_SR1_TXE cfg) \<noteq> 0"
    and sb: "st AND I2C_SR1_SB cfg = 0"
    and ack: "check_addr_ACK s1 \<longrightarrow> CONFIG_I2C_POLLED cfg \<or> st AND I2C_SR1_ADDR cfg \<noteq> 0"
  shows "\<exists>s'. stm32_i2c_isr cfg s = Some s' \<and>
     s' = traceevent cfg I2CEVENT_WRITE_FLAG_ERROR (ucast (flags_m m))
            (snd (stm32_i2c_getreg SR2 s1)\<lparr>check_addr_ACK := False\<rparr>) \<and>
     acc s' = acc s @ [GetReg SR1, GetReg SR2] \<and> regs s' = regs s \<and> mem s' = mem s \<and>
     dcnt s' = dcnt s1 \<and> msgc s' = msgc s1 \<and> msgv s' = msgv s1 \<and> ptr s' = ptr s1 \<and>
     \<not> check_addr_ACK s' \<and> intstate s' = intstate s \<and>
     (CONFIG_I2C_TRACE cfg \<longrightarrow>
        event_tr (trace s' (tndx s1)) = ucast I2CEVENT_WRITE_FLAG_ERROR \<and>
        parm_tr (trace s' (tndx s1)) = ucast (flags_m m))"
proof -
  note fr = isr_prologue_frame [OF pro]
  let ?s2 = "snd (stm32_i2c_getreg SR2 s1)\<lparr>check_addr_ACK := False\<rparr>"
  let ?w = "traceevent cfg I2CEVENT_WRITE_FLAG_ERROR (ucast (flags_m m)) ?s2"
  have sel: "stm32_i2c_isr cfg s = map_option (isr_msg_handling_2 cfg) (isr_write_mode cfg s1)"
    using pro wr ev sb ack by (rule isr_write_selected)
  have m2: "msg_at ?s2 = Some m"
    using m by (simp add: msg_at_eq [of ?s2 s1])
  have nz1: "msgc s1 \<noteq> 0" using nz by auto
  have nr: "\<not> (flags_m m = 0 \<or> flags_m m AND I2C_M_READ cfg \<noteq> 0)" using fl by simp
  have w: "isr_write_mode cfg s1 = Some ?w"
    using d nz1 nr fl(3) by (simp add: isr_write_mode_def Let_def m2)
  have dw: "dcnt ?w = 0" using d by simp
  have h2: "isr_msg_handling_2 cfg ?w = ?w"
    using dw by (simp add: isr_msg_handling_2_def)
  have run: "stm32_i2c_isr cfg s = Some ?w" by (simp add: sel w h2)
  have tr: "CONFIG_I2C_TRACE cfg \<longrightarrow>
        event_tr (trace ?w (tndx s1)) = ucast I2CEVENT_WRITE_FLAG_ERROR \<and>
        parm_tr (trace ?w (tndx s1)) = ucast (flags_m m)"
    by (simp add: traceevent_def stm32_i2c_traceevent_def stm32_i2c_traceclear_def
        stm32_i2c_getreg_def Let_def I2CEVENT_WRITE_FLAG_ERROR_def I2CEVENT_NONE_def
        I2CEVENT_POLL_DEV_NOT_RDY_def)
  have frame: "acc ?w = acc s @ [GetReg SR1, GetReg SR2]" "regs ?w = regs s" "mem ?w = mem s"
    "dcnt ?w = dcnt s1" "msgc ?w = msgc s1" "msgv ?w = msgv s1" "ptr ?w = ptr s1"
    "\<not> check_addr_ACK ?w" "intstate ?w = intstate s"
    using fr by simp_all
  from run tr frame show ?thesis by simp
qed

theorem write_unrecognized_flag_witness:
  "map_option dcnt (stm32_i2c_isr stm32_cfg (sys_written [read3_msg 0x0002] 0x0084)) = Some 0 \<and>
   map_option msgc (stm32_i2c_isr stm32_cfg (sys_written [read3_msg 0x0002] 0x0084)) = Some 1 \<and>
   map_option check_addr_ACK
     (stm32_i2c_isr stm32_cfg (sys_written [read3_msg 0x0002] 0x0084)) = Some False \<and>
   map_option intstate (stm32_i2c_isr stm32_cfg (sys_written [read3_msg 0x0002] 0x0084)) =
     Some INTSTATE_IDLE \<and>
   map_option acc (stm32_i2c_isr stm32_cfg (sys_written [read3_msg 0x0002] 0x0084)) =
     Some [GetReg SR1, GetReg SR2] \<and>
   map_option (\<lambda>s. parm_tr (trace s 1)) (stm32_i2c_isr stm32_cfg (sys_written [read3_msg 0x0002] 0x0084)) =
     Some 2"
proof -
  let ?s = "sys_written [read3_msg 0x0002] 0x0084"
  from sys_written_prologue [of stm32_cfg "[read3_msg 0x0002]" "0x0084"] obtain s1 where
    p: "isr_prologue stm32_cfg ?s = Some (ucast (0x0084 :: 16 word), s1)"
    and s1: "dcnt s1 = 0" "msgc s1 = of_nat (length [read3_msg 0x0002])" "flags s1 = 0"
      "\<not> check_addr_ACK s1" "msg_at s1 = msg_at ?s"
    by blast
  have ma: "msg_at ?s = Some (read3_msg 0x0002)" by (simp add: msg_at_def sys_written_def)
  have t1: "tndx s1 = 1"
    using p by (auto simp: isr_eval sys_written_def sys0_def stm32_cfg_def event_defs)
  have m1: "msg_at s1 = Some (read3_msg 0x0002)" using s1(5) ma by simp
  have h: "dcnt s1 = 0" "msgc s1 > 0" "msg_at s1 = Some (read3_msg 0x0002)"
    "flags_m (read3_msg 0x0002) \<noteq> 0" "flags_m (read3_msg 0x0002) AND I2C_M_READ stm32_cfg = 0"
    "flags_m (read3_msg 0x0002) AND I2C_M_NORESTART stm32_cfg = 0"
    "flags s1 AND I2C_M_READ stm32_cfg = 0"
    "ucast (0x0084 :: 16 word) AND (I2C_SR1_ADDR stm32_cfg OR I2C_SR1_TXE stm32_cfg) \<noteq> 0"
    "ucast (0x0084 :: 16 word) AND I2C_SR1_SB stm32_cfg = 0"
    "check_addr_ACK s1 \<longrightarrow>
        CONFIG_I2C_POLLED stm32_cfg \<or> ucast (0x0084 :: 16 word) AND I2C_SR1_ADDR stm32_cfg \<noteq> 0"
    by (simp_all add: s1(1-4) m1 read3_msg_def stm32_cfg_def)
  have c: "CONFIG_I2C_TRACE stm32_cfg" by (simp add: stm32_cfg_def)
  from write_unrecognized_flag [OF p h] obtain s' where
    r: "stm32_i2c_isr stm32_cfg ?s = Some s'"
    and f: "acc s' = acc ?s @ [GetReg SR1, GetReg SR2]" "dcnt s' = dcnt s1" "msgc s' = msgc s1"
      "\<not> check_addr_ACK s'" "intstate s' = intstate ?s"
    and e: "CONFIG_I2C_TRACE stm32_cfg \<longrightarrow>
        event_tr (trace s' (tndx s1)) = ucast I2CEVENT_WRITE_FLAG_ERROR \<and>
        parm_tr (trace s' (tndx s1)) = ucast (flags_m (read3_msg 0x0002))"
    by blast
  from e c t1 have "parm_tr (trace s' 1) = 2" by (simp add: read3_msg_def)
  with f s1 show ?thesis
    unfolding r by (simp add: sys_written_def sys0_def)
qed

theorem flag_error_clears_pending:
  "case sys_leftover of
     None \<Rightarrow> False
   | Some b \<Rightarrow>
       check_addr_ACK b \<and> dcnt b = -1 \<and> msgc b = 2 \<and>
       (case isr_prologue stm32_cfg_polled (b\<lparr>regs := (regs b)(SR1 := 0x0080)\<rparr>) of
          None \<Rightarrow> False
        | Some (st, b1) \<Rightarrow> check_addr_ACK b1 \<and> dcnt b1 = 0 \<and> msgc b1 = 1 \<and> flags b1 = 0) \<and>
       (case stm32_i2c_isr stm32_cfg_polled (b\<lparr>regs := (regs b)(SR1 := 0x0080)\<rparr>) of
          None \<Rightarrow> False
        | Some s' \<Rightarrow>
            \<not> check_addr_ACK s' \<and> dcnt s' = 0 \<and> msgc s' = 1 \<and>
            event_tr (trace s' (tndx s' - 1)) = 8001)"
  by (simp add: sys_leftover_def isr_eval stm32_i2c_process_def stm32_i2c_process_begin_def
      stm32_i2c_process_end_def process_errval_def stm32_i2c_getstatus_def
      stm32_i2c_sem_waitstop_def I2C_SR1_ERRORMASK_def
      stm32_i2c_setclock_def stm32_i2c_sem_waitdone_def stm32_cfg_polled_def stm32_cfg_def
      write1_msg_def empty_msg_def read3_msg_def sys0_def event_defs)

subsection \<open>Clock programming\<close>
















subsection \<open>Trace events\<close>

text \<open>
  C10. For every event code, also \<^verbatim>\<open>I2CEVENT_NONE\<close> and
  \<^verbatim>\<open>I2CEVENT_POLL_DEV_NOT_RDY\<close>, the guard of \<^verbatim>\<open>stm32_i2c_traceevent\<close> is
  true: the call stores the event and the parameter in the current trace
  entry, and whenever the index is below the last entry it advances the
  index by one and clears the entry it advances to. No event is filtered.
\<close>

theorem traceevent_never_filters:
  "(event \<noteq> I2CEVENT_NONE \<or> event \<noteq> I2CEVENT_POLL_DEV_NOT_RDY) \<and>
   stm32_i2c_traceevent cfg event parm s =
     (let s1 = s\<lparr>trace := (trace s)(tndx s :=
                 (trace s (tndx s))\<lparr>event_tr := ucast event, parm_tr := parm\<rparr>)\<rparr>
      in if tndx s < CONFIG_I2C_NTRACE cfg - 1
         then stm32_i2c_traceclear (s1\<lparr>tndx := tndx s + 1\<rparr>)
         else s1)"
proof -
  have distinct: "I2CEVENT_NONE \<noteq> I2CEVENT_POLL_DEV_NOT_RDY"
    by (simp add: I2CEVENT_NONE_def I2CEVENT_POLL_DEV_NOT_RDY_def)
  then have guard: "event \<noteq> I2CEVENT_NONE \<or> event \<noteq> I2CEVENT_POLL_DEV_NOT_RDY"
    by auto
  then show ?thesis
    by (auto simp: stm32_i2c_traceevent_def Let_def)
qed

theorem traceevent_never_filters_witness:
  "tndx (stm32_i2c_traceevent stm32_cfg I2CEVENT_NONE 7 sys0) = 1 \<and>
   event_tr (trace (stm32_i2c_traceevent stm32_cfg I2CEVENT_NONE 7 sys0) 0) = 0 \<and>
   parm_tr (trace (stm32_i2c_traceevent stm32_cfg I2CEVENT_NONE 7 sys0) 0) = 7 \<and>
   tndx (stm32_i2c_traceevent stm32_cfg I2CEVENT_POLL_DEV_NOT_RDY 9 sys0) = 1 \<and>
   event_tr (trace (stm32_i2c_traceevent stm32_cfg I2CEVENT_POLL_DEV_NOT_RDY 9 sys0) 0) = 1004 \<and>
   parm_tr (trace (stm32_i2c_traceevent stm32_cfg I2CEVENT_POLL_DEV_NOT_RDY 9 sys0) 0) = 9 \<and>
   tndx (stm32_i2c_traceevent stm32_cfg I2CEVENT_NONE 7 (sys0\<lparr>tndx := 31\<rparr>)) = 31 \<and>
   parm_tr (trace (stm32_i2c_traceevent stm32_cfg I2CEVENT_NONE 7 (sys0\<lparr>tndx := 31\<rparr>)) 31) = 7"
  using traceevent_never_filters [of I2CEVENT_NONE stm32_cfg 7 sys0]
    traceevent_never_filters [of I2CEVENT_POLL_DEV_NOT_RDY stm32_cfg 9 sys0]
    traceevent_never_filters [of I2CEVENT_NONE stm32_cfg 7 "sys0\<lparr>tndx := 31\<rparr>"]
  by (simp add: sys0_def stm32_cfg_def stm32_i2c_traceclear_def Let_def
      I2CEVENT_NONE_def I2CEVENT_POLL_DEV_NOT_RDY_def)

end
